theory Spec2Isabelle
  imports Main
begin

section \<open>dateutil.tz: shared conventions\<close>

text \<open>
  Exceptions are values. A function of the source that can raise returns
  \<open>py_error + 'a\<close>, with \<open>Inl\<close> for the exception. \<open>ValueError\<close> carries its
  message, the other exceptions only their class.
\<close>

datatype py_error =
    ValueError string
  | TypeError
  | KeyError
  | IndexError
  | AttributeError
  | UnboundLocalError

section \<open>Fixed-offset zones and their equality\<close>

text \<open>
  A duration (\<open>datetime.timedelta\<close>) is a whole number of microseconds, the class's
  resolution; \<open>timedelta_seconds s\<close> is \<open>timedelta(seconds=s)\<close> and \<open>ZERO\<close> is the
  duration 0.

  \<open>tzutc\<close> has no fields. A \<open>tzoffset\<close> instance holds \<open>_name\<close> and \<open>_offset\<close>.
  The constructor passes its offset through \<open>_get_supported_offset\<close>, which the module
  defines twice: the identity on Python 3.6 and later, rounding to whole minutes before.
  The flag \<open>py36\<close> selects the definition.
\<close>

definition timedelta_seconds :: "int \<Rightarrow> int" where
  "timedelta_seconds s = s * 1000000"

definition ZERO :: int where
  "ZERO = 0"

definition get_supported_offset :: "bool \<Rightarrow> int \<Rightarrow> int" where
  "get_supported_offset py36 second_offset =
     (if py36 then second_offset else 60 * ((second_offset + 30) div 60))"

record tzoffset =
  tzo_name :: "string option"
  tzo_offset :: int

definition tzoffset_init :: "bool \<Rightarrow> string option \<Rightarrow> int \<Rightarrow> tzoffset" where
  "tzoffset_init py36 name offset =
     \<lparr>tzo_name = name, tzo_offset = timedelta_seconds (get_supported_offset py36 offset)\<rparr>"

text \<open>
  The two classes whose \<open>__eq__\<close> the equality of fixed-offset zones involves, and
  any object of another class (\<open>Other\<close>, told apart by an identity).
\<close>

datatype tzobj = TzUtc | TzOffset tzoffset | Other nat

text \<open>
  \<open>__eq__\<close> returns a boolean or \<open>NotImplemented\<close> (\<open>None\<close> here).
  \<open>tzutc.__eq__\<close> answers for \<open>tzutc\<close> and \<open>tzoffset\<close> operands,
  \<open>tzoffset.__eq__\<close> for \<open>tzoffset\<close> operands only. An object of another class
  has \<open>object.__eq__\<close>: identity, else \<open>NotImplemented\<close>.
\<close>

fun tzutc_eq :: "tzobj \<Rightarrow> bool option" where
  "tzutc_eq TzUtc = Some True"
| "tzutc_eq (TzOffset other) = Some (tzo_offset other = ZERO)"
| "tzutc_eq (Other i) = None"

fun tzoffset_eq :: "tzoffset \<Rightarrow> tzobj \<Rightarrow> bool option" where
  "tzoffset_eq self (TzOffset other) = Some (tzo_offset self = tzo_offset other)"
| "tzoffset_eq self other = None"

fun dunder_eq :: "tzobj \<Rightarrow> tzobj \<Rightarrow> bool option" where
  "dunder_eq TzUtc other = tzutc_eq other"
| "dunder_eq (TzOffset self) other = tzoffset_eq self other"
| "dunder_eq (Other i) other = (if other = Other i then Some True else None)"

text \<open>
  \<open>tzutc\<close> is a singleton and \<open>Other\<close> carries its identity, so \<open>a is b\<close> is
  decided by the value for them; two \<open>tzoffset\<close> instances never reach the identity
  test, their \<open>__eq__\<close> answers first.
\<close>

definition py_is :: "tzobj \<Rightarrow> tzobj \<Rightarrow> bool" where
  "py_is a b = (case (a, b) of
       (TzUtc, TzUtc) \<Rightarrow> True
     | (Other i, Other j) \<Rightarrow> i = j
     | _ \<Rightarrow> False)"

text \<open>
  The operator \<open>a == b\<close>: \<open>a.__eq__(b)\<close>; on \<open>NotImplemented\<close> the reflected
  \<open>b.__eq__(a)\<close>; when both decline, identity. (Neither class derives from the other,
  so the reflected method is never tried first.)
\<close>

definition py_eq :: "tzobj \<Rightarrow> tzobj \<Rightarrow> bool" where
  "py_eq a b = (case dunder_eq a b of
       Some r \<Rightarrow> r
     | None \<Rightarrow> (case dunder_eq b a of Some r \<Rightarrow> r | None \<Rightarrow> py_is a b))"

section \<open>Rule-based zones: \<open>tzrange\<close> and \<open>tzstr\<close>\<close>

subsection \<open>The calendar\<close>

text \<open>
  The proleptic Gregorian calendar of \<open>datetime\<close>: day 1 is 0001-01-01, a Monday;
  \<open>weekday()\<close> counts Monday as 0 and Sunday as 6. A naive \<open>datetime\<close> is its
  position on the timeline of wall-clock readings, in microseconds after
  0001-01-01T00:00:00. \<open>datetime_new\<close> is the constructor
  \<open>datetime.datetime(year, month, day, hour, minute, second)\<close>, which raises
  \<open>ValueError\<close> for a field out of range (the message is the class's own and is not
  reproduced here).
\<close>

definition is_leap :: "int \<Rightarrow> bool" where
  "is_leap y = (y mod 4 = 0 \<and> (y mod 100 \<noteq> 0 \<or> y mod 400 = 0))"

definition days_before_year :: "int \<Rightarrow> int" where
  "days_before_year y = (y - 1) * 365 + (y - 1) div 4 - (y - 1) div 100 + (y - 1) div 400"

definition days_in_month :: "int \<Rightarrow> int \<Rightarrow> int" where
  "days_in_month y m =
     (if m = 2 then (if is_leap y then 29 else 28)
      else if m = 4 \<or> m = 6 \<or> m = 9 \<or> m = 11 then 30 else 31)"

definition days_before_month :: "int \<Rightarrow> int \<Rightarrow> int" where
  "days_before_month y m = sum_list (map (days_in_month y) [1..m - 1])"

definition ymd2ord :: "int \<Rightarrow> int \<Rightarrow> int \<Rightarrow> int" where
  "ymd2ord y m d = days_before_year y + days_before_month y m + d"

definition weekday_of_ordinal :: "int \<Rightarrow> int" where
  "weekday_of_ordinal n = (n + 6) mod 7"

definition weekday_of :: "int \<Rightarrow> int \<Rightarrow> int \<Rightarrow> int" where
  "weekday_of y m d = weekday_of_ordinal (ymd2ord y m d)"

definition MINYEAR :: int where
  "MINYEAR = 1"

definition MAXYEAR :: int where
  "MAXYEAR = 9999"

definition at_midnight_plus :: "int \<Rightarrow> int \<Rightarrow> int" where
  "at_midnight_plus ordinal seconds = ((ordinal - 1) * 86400 + seconds) * 1000000"

definition datetime_new :: "int \<Rightarrow> int \<Rightarrow> int \<Rightarrow> int \<Rightarrow> int \<Rightarrow> int \<Rightarrow> py_error + int" where
  "datetime_new y m d hh mm ss =
     (if y < MINYEAR \<or> MAXYEAR < y then Inl (ValueError ''year is out of range'')
      else if m < 1 \<or> 12 < m then Inl (ValueError ''month must be in 1..12'')
      else if d < 1 \<or> days_in_month y m < d then Inl (ValueError ''day is out of range for month'')
      else if hh < 0 \<or> 23 < hh then Inl (ValueError ''hour must be in 0..23'')
      else if mm < 0 \<or> 59 < mm then Inl (ValueError ''minute must be in 0..59'')
      else if ss < 0 \<or> 59 < ss then Inl (ValueError ''second must be in 0..59'')
      else Inr (at_midnight_plus (ymd2ord y m d) (hh * 3600 + mm * 60 + ss)))"

subsection \<open>Recurrence rules\<close>

text \<open>
  Modelled from the spec: the class \<open>relativedelta\<close> (\<open>dateutil.relativedelta\<close>, which
  is not among the sources). The spec's RecurrenceRule is
  \<open>{ month, day-selector (fixed day-of-month | nth-weekday-of-month | year-day),
  time-of-day-offset }\<close> and "produces, for a given year, a concrete CivilDateTime".
  The record keeps the keyword arguments that \<open>tz.py\<close> passes: \<open>month\<close>, \<open>day\<close>,
  \<open>weekday\<close> (a weekday and an occurrence count \<open>n\<close>), \<open>yearday\<close>, \<open>nlyearday\<close>,
  and the time-of-day offset, \<open>hours\<close> and \<open>seconds\<close> together, in seconds. Two rules are
  equal when these agree. A rule is falsy when it holds nothing.
\<close>

record relativedelta =
  rd_month :: "int option"
  rd_day :: "int option"
  rd_weekday :: "(int \<times> int) option"
  rd_yearday :: "int option"
  rd_nlyearday :: "int option"
  rd_seconds :: int

definition SU :: "int \<Rightarrow> int \<times> int" where
  "SU n = (6, n)"

definition relativedelta_new ::
  "int \<Rightarrow> int \<Rightarrow> int option \<Rightarrow> int option \<Rightarrow> (int \<times> int) option \<Rightarrow> int option \<Rightarrow> int option
     \<Rightarrow> relativedelta" where
  "relativedelta_new hours seconds month day weekday yearday nlyearday =
     \<lparr>rd_month = month, rd_day = day, rd_weekday = weekday, rd_yearday = yearday,
      rd_nlyearday = nlyearday, rd_seconds = hours * 3600 + seconds\<rparr>"

definition relativedelta_bool :: "relativedelta \<Rightarrow> bool" where
  "relativedelta_bool r =
     (\<not> (rd_seconds r = 0 \<and> rd_month r = None \<and> rd_day r = None \<and> rd_weekday r = None
         \<and> (rd_yearday r = None \<or> rd_yearday r = Some 0)
         \<and> (rd_nlyearday r = None \<or> rd_nlyearday r = Some 0)))"

text \<open>
  Modelled from the spec: \<open>datetime(year, 1, 1) + rule\<close>, the rule's date in a year.
  The day selector gives a day of the year (a year-day counted with or without
  February 29, or the day of the month, no later than the month's last day), the
  time-of-day offset is added, and a weekday selector then moves to the \<open>n\<close>-th such
  weekday on or after that day (\<open>n > 0\<close>) or on or before it (\<open>n < 0\<close>); a count of 0
  is read as 1.
\<close>

definition rule_day :: "relativedelta \<Rightarrow> int \<Rightarrow> int" where
  "rule_day r year =
     (case rd_nlyearday r of
        Some n \<Rightarrow> days_before_year year + n + (if is_leap year \<and> 59 < n then 1 else 0)
      | None \<Rightarrow>
          (case rd_yearday r of
             Some n \<Rightarrow> days_before_year year + n
           | None \<Rightarrow>
               (let m = (case rd_month r of Some m \<Rightarrow> m | None \<Rightarrow> 1);
                    d = (case rd_day r of Some d \<Rightarrow> d | None \<Rightarrow> 1)
                in ymd2ord year m (min (days_in_month year m) d))))"

definition weekday_jump :: "(int \<times> int) option \<Rightarrow> int \<Rightarrow> int" where
  "weekday_jump w ordinal =
     (case w of
        None \<Rightarrow> 0
      | Some (weekday, n) \<Rightarrow>
          (let nth = (if n = 0 then 1 else n)
           in if 0 < nth
              then (\<bar>nth\<bar> - 1) * 7 + (7 - weekday_of_ordinal ordinal + weekday) mod 7
              else - ((\<bar>nth\<bar> - 1) * 7 + (weekday_of_ordinal ordinal - weekday) mod 7)))"

definition relativedelta_radd :: "relativedelta \<Rightarrow> int \<Rightarrow> int" where
  "relativedelta_radd r year =
     (let total = (rule_day r year - 1) * 86400 + rd_seconds r;
          ordinal = total div 86400 + 1
      in (total + weekday_jump (rd_weekday r) ordinal * 86400) * 1000000)"

subsection \<open>\<open>tzrange\<close>\<close>

text \<open>
  The \<open>start\<close> and \<open>end\<close> arguments and the attributes \<open>_start_delta\<close> and
  \<open>_end_delta\<close> hold \<open>None\<close>, \<open>False\<close> (which \<open>tzstr\<close> passes) or a rule.
  Abbreviations are strings or \<open>None\<close>; \<open>None\<close> and the empty string are falsy.
  The offset arguments are numbers of seconds (an argument given as a \<open>timedelta\<close> is
  its \<open>total_seconds()\<close>); the attributes are durations.
\<close>

datatype delta_arg = DeltaNone | DeltaFalse | Delta relativedelta

definition delta_bool :: "delta_arg \<Rightarrow> bool" where
  "delta_bool x = (case x of Delta r \<Rightarrow> relativedelta_bool r | _ \<Rightarrow> False)"

definition str_bool :: "string option \<Rightarrow> bool" where
  "str_bool s = (case s of None \<Rightarrow> False | Some x \<Rightarrow> x \<noteq> [])"

record tzrange =
  std_abbr :: "string option"
  dst_abbr :: "string option"
  std_offset :: int
  dst_offset :: int
  start_delta :: delta_arg
  end_delta :: delta_arg
  dst_base_offset :: int
  hasdst :: bool

definition tzrange_init ::
  "string option \<Rightarrow> int option \<Rightarrow> string option \<Rightarrow> int option \<Rightarrow> delta_arg \<Rightarrow> delta_arg
     \<Rightarrow> tzrange" where
  "tzrange_init stdabbr stdoffset dstabbr dstoffset start end' =
     (let std = (case stdoffset of Some x \<Rightarrow> timedelta_seconds x | None \<Rightarrow> ZERO);
          dst = (case dstoffset of
                   Some x \<Rightarrow> timedelta_seconds x
                 | None \<Rightarrow>
                     if str_bool dstabbr \<and> stdoffset \<noteq> None then std + timedelta_seconds 3600
                     else ZERO);
          sd = (if str_bool dstabbr \<and> start = DeltaNone
                then Delta (relativedelta_new 2 0 (Some 4) (Some 1) (Some (SU 1)) None None)
                else start);
          ed = (if str_bool dstabbr \<and> end' = DeltaNone
                then Delta (relativedelta_new 1 0 (Some 10) (Some 31) (Some (SU (- 1))) None None)
                else end')
      in \<lparr>std_abbr = stdabbr, dst_abbr = dstabbr, std_offset = std, dst_offset = dst,
          start_delta = sd, end_delta = ed, dst_base_offset = dst - std,
          hasdst = delta_bool sd\<rparr>)"

text \<open>
  \<open>transitions(year)\<close>: \<open>None\<close> without DST; else \<open>datetime(year, 1, 1)\<close> plus each
  rule. Adding \<open>None\<close> or \<open>False\<close> to a \<open>datetime\<close> is a \<open>TypeError\<close>.
\<close>

definition transitions :: "tzrange \<Rightarrow> int \<Rightarrow> py_error + (int \<times> int) option" where
  "transitions self year =
     (if \<not> hasdst self then Inr None
      else (case datetime_new year 1 1 0 0 0 of
              Inl e \<Rightarrow> Inl e
            | Inr base_year \<Rightarrow>
                (case start_delta self of
                   Delta s \<Rightarrow>
                     (case end_delta self of
                        Delta e \<Rightarrow> Inr (Some (relativedelta_radd s year, relativedelta_radd e year))
                      | _ \<Rightarrow> Inl TypeError)
                 | _ \<Rightarrow> Inl TypeError)))"

text \<open>\<open>tzrange.__eq__\<close> on two \<open>tzrange\<close> instances (a \<open>tzstr\<close> is one).\<close>

definition tzrange_eq :: "tzrange \<Rightarrow> tzrange \<Rightarrow> bool" where
  "tzrange_eq self other =
     (std_abbr self = std_abbr other \<and>
      dst_abbr self = dst_abbr other \<and>
      std_offset self = std_offset other \<and>
      dst_offset self = dst_offset other \<and>
      start_delta self = start_delta other \<and>
      end_delta self = end_delta other)"

subsection \<open>\<open>tzstr\<close>\<close>

text \<open>
  \<open>tzstr.__init__\<close> starts from \<open>parser._parsetz(s)\<close>. The parser
  (\<open>dateutil.parser\<close>) is not among the sources, so its result is an argument here:
  \<open>None\<close>, or a result object with the fields that \<open>tzstr\<close> reads. Offsets in it carry
  the POSIX sign turned into a UTC offset (\<open>EST5\<close> gives \<open>-18000\<close>), as the class's
  documentation says. The attribute \<open>_s\<close>, which only \<open>__repr__\<close> reads, is left out.
\<close>

record tzattr =
  a_month :: "int option"
  a_week :: "int option"
  a_weekday :: "int option"
  a_yday :: "int option"
  a_jyday :: "int option"
  a_day :: "int option"
  a_time :: "int option"

record tzresult =
  r_stdabbr :: "string option"
  r_stdoffset :: "int option"
  r_dstabbr :: "string option"
  r_dstoffset :: "int option"
  r_start :: tzattr
  r_end :: tzattr
  any_unused_tokens :: bool

definition int_bool :: "int option \<Rightarrow> bool" where
  "int_bool x = (case x of None \<Rightarrow> False | Some v \<Rightarrow> v \<noteq> 0)"

text \<open>
  \<open>_delta(x, isend)\<close>: the keyword arguments of the rule are collected, then the rule is
  built. \<open>x.week > 0\<close> with \<open>week\<close> unset is a \<open>TypeError\<close>. For the end rule the
  whole seconds of \<open>_dst_offset - _std_offset\<close> (\<open>delta.seconds + delta.days * 86400\<close>)
  are taken off the time of day.
\<close>

definition tzstr_delta :: "tzrange \<Rightarrow> tzattr \<Rightarrow> bool \<Rightarrow> py_error + relativedelta" where
  "tzstr_delta self x isend =
     (let seconds0 = (case a_time x of Some t \<Rightarrow> t | None \<Rightarrow> 7200);
          seconds = (if isend then seconds0 - (dst_offset self - std_offset self) div 1000000
                     else seconds0)
      in case a_month x of
           Some m \<Rightarrow>
             (case a_weekday x of
                Some wd \<Rightarrow>
                  (case a_week x of
                     None \<Rightarrow> Inl TypeError
                   | Some wk \<Rightarrow>
                       Inr (relativedelta_new 0 seconds (Some m)
                              (Some (if 0 < wk then 1 else 31)) (Some (wd, wk)) None None))
              | None \<Rightarrow>
                  Inr (relativedelta_new 0 seconds (Some m)
                         (if int_bool (a_day x) then a_day x else None) None None None))
         | None \<Rightarrow>
             (case a_yday x of
                Some yd \<Rightarrow> Inr (relativedelta_new 0 seconds None None None (Some yd) None)
              | None \<Rightarrow>
                  (case a_jyday x of
                     Some jd \<Rightarrow> Inr (relativedelta_new 0 seconds None None None None (Some jd))
                   | None \<Rightarrow>
                       if \<not> isend
                       then Inr (relativedelta_new 0 seconds (Some 4) (Some 1) (Some (SU 1)) None None)
                       else Inr (relativedelta_new 0 seconds (Some 10) (Some 31) (Some (SU (- 1)))
                                   None None))))"

definition tzstr_init :: "tzresult option \<Rightarrow> bool \<Rightarrow> py_error + tzrange" where
  "tzstr_init parsed posix_offset =
     (case parsed of
        None \<Rightarrow> Inl (ValueError ''unknown string format'')
      | Some res \<Rightarrow>
          if any_unused_tokens res then Inl (ValueError ''unknown string format'')
          else
            (case (if (r_stdabbr res = Some ''GMT'' \<or> r_stdabbr res = Some ''UTC'') \<and> \<not> posix_offset
                   then (case r_stdoffset res of
                           None \<Rightarrow> Inl TypeError
                         | Some off \<Rightarrow> Inr (Some (off * (- 1))))
                   else Inr (r_stdoffset res)) of
               Inl e \<Rightarrow> Inl e
             | Inr stdoffset \<Rightarrow>
                 (let self = tzrange_init (r_stdabbr res) stdoffset (r_dstabbr res) (r_dstoffset res)
                               DeltaFalse DeltaFalse
                  in if \<not> str_bool (r_dstabbr res)
                     then Inr (self\<lparr>start_delta := DeltaNone, end_delta := DeltaNone, hasdst := False\<rparr>)
                     else
                       (case tzstr_delta self (r_start res) False of
                          Inl e \<Rightarrow> Inl e
                        | Inr sd \<Rightarrow>
                            (case (if relativedelta_bool sd
                                   then (case tzstr_delta self (r_end res) True of
                                           Inl e \<Rightarrow> Inl e
                                         | Inr ed \<Rightarrow> Inr (Delta ed))
                                   else Inr (end_delta self)) of
                               Inl e \<Rightarrow> Inl e
                             | Inr ed \<Rightarrow>
                                 Inr (self\<lparr>start_delta := Delta sd, end_delta := ed,
                                           hasdst := delta_bool (Delta sd)\<rparr>))))))"

text \<open>
  Modelled from the spec: the result of \<open>parser._parsetz("EST5EDT")\<close> (the parser is
  not among the sources). By the grammar \<open>STDoffset[DST[offset][,start[/time],end[/time]]]\<close> the
  string has the standard abbreviation \<open>EST\<close> with offset 5 (five hours behind UTC), the
  DST abbreviation \<open>EDT\<close> with no offset of its own, no start or end specification and no
  unconsumed input.
\<close>

definition tzattr_unset :: tzattr where
  "tzattr_unset = \<lparr>a_month = None, a_week = None, a_weekday = None, a_yday = None,
                   a_jyday = None, a_day = None, a_time = None\<rparr>"

definition parsetz_EST5EDT :: tzresult where
  "parsetz_EST5EDT = \<lparr>r_stdabbr = Some ''EST'', r_stdoffset = Some (- 18000),
                      r_dstabbr = Some ''EDT'', r_dstoffset = None,
                      r_start = tzattr_unset, r_end = tzattr_unset,
                      any_unused_tokens = False\<rparr>"

text \<open>
  Modelled from the spec: the result of \<open>parser._parsetz("GMT+3")\<close>. In POSIX the
  string means three hours behind UTC, so the parser's offset is \<open>-10800\<close>; there is no
  DST part.
\<close>

definition parsetz_GMT_plus_3 :: tzresult where
  "parsetz_GMT_plus_3 = \<lparr>r_stdabbr = Some ''GMT'', r_stdoffset = Some (- 10800),
                         r_dstabbr = None, r_dstoffset = None,
                         r_start = tzattr_unset, r_end = tzattr_unset,
                         any_unused_tokens = False\<rparr>"

text \<open>
  A start or end specification of the form \<open>Mm.w.d\<close> sets \<open>month\<close>, \<open>week\<close> and
  \<open>weekday\<close> together: a specification with \<open>month\<close> and \<open>weekday\<close> has a \<open>week\<close>.
\<close>

definition attr_complete :: "tzattr \<Rightarrow> bool" where
  "attr_complete x = (a_month x = None \<or> a_weekday x = None \<or> a_week x \<noteq> None)"

section \<open>iCalendar zones: \<open>_tzicalvtz\<close>\<close>

text \<open>
  A \<open>datetime\<close> object: its wall-clock reading (the position on the naive timeline, in
  microseconds), its \<open>fold\<close> and its \<open>tzinfo\<close>, a reference to a zone object or
  \<open>None\<close>. Comparing two naive datetimes compares the readings and ignores \<open>fold\<close>.
  Arithmetic with a \<open>timedelta\<close> is exact arithmetic on the timeline and gives a
  datetime with \<open>fold = 0\<close>; the host's \<open>OverflowError\<close> beyond the years 1 and 9999 is
  outside the model.
\<close>

type_synonym tzref = nat

record datetime =
  dt_wall :: int
  dt_fold :: bool
  dt_tzinfo :: "tzref option"

text \<open>
  A component of a \<open>VTIMEZONE\<close>. Its recurrence (\<open>rrule\<close>, of the external evaluator
  \<open>dateutil.rrule\<close>, or \<open>None\<close>) is the one query the zone makes of it,
  \<open>before(dt, inc=True)\<close>: the last occurrence at or before a reading, or \<open>None\<close>.
\<close>

record tzicalvtzcomp =
  tzoffsetfrom :: int
  tzoffsetto :: int
  tzoffsetdiff :: int
  isdst :: bool
  tzname :: "string option"
  rrule :: "(int \<Rightarrow> int option) option"

definition tzicalvtzcomp_init ::
  "int \<Rightarrow> int \<Rightarrow> bool \<Rightarrow> string option \<Rightarrow> (int \<Rightarrow> int option) option \<Rightarrow> tzicalvtzcomp" where
  "tzicalvtzcomp_init offsetfrom offsetto dst name rr =
     \<lparr>tzoffsetfrom = timedelta_seconds offsetfrom,
      tzoffsetto = timedelta_seconds offsetto,
      tzoffsetdiff = timedelta_seconds offsetto - timedelta_seconds offsetfrom,
      isdst = dst, tzname = name, rrule = rr\<rparr>"

text \<open>
  The zone: its components in definition order and the two parallel cache lists
  \<open>_cachedate\<close> and \<open>_cachecomp\<close>, which \<open>_find_comp\<close> updates.
\<close>

record tzicalvtz =
  tzid :: string
  comps :: "tzicalvtzcomp list"
  cachedate :: "(int \<times> bool) list"
  cachecomp :: "tzicalvtzcomp list"

definition tzicalvtz_init :: "string \<Rightarrow> tzicalvtzcomp list \<Rightarrow> tzicalvtz" where
  "tzicalvtz_init name cs = \<lparr>tzid = name, comps = cs, cachedate = [], cachecomp = []\<rparr>"

text \<open>\<open>list.index\<close>: the first position of a value; \<open>None\<close> stands for its \<open>ValueError\<close>.\<close>

fun index_of :: "'a list \<Rightarrow> 'a \<Rightarrow> nat option" where
  "index_of [] x = None"
| "index_of (y # ys) x = (if y = x then Some 0 else map_option Suc (index_of ys x))"

text \<open>
  \<open>_find_compdt\<close>, on the reading and the \<open>fold\<close> of the datetime (\<open>self._fold(dt)\<close>
  reads its \<open>fold\<close>); a component without recurrence has no \<open>before\<close>.
\<close>

definition find_compdt :: "tzicalvtzcomp \<Rightarrow> int \<Rightarrow> bool \<Rightarrow> py_error + int option" where
  "find_compdt c dt fld =
     (let dt' = (if tzoffsetdiff c < ZERO \<and> fld then dt - tzoffsetdiff c else dt)
      in case rrule c of
           None \<Rightarrow> Inl AttributeError
         | Some before \<Rightarrow> Inr (before dt'))"

text \<open>The first loop of \<open>_find_comp\<close>, with \<open>lastcompdt\<close> and \<open>lastcomp\<close> as accumulators.\<close>

fun latest_comp ::
  "tzicalvtzcomp list \<Rightarrow> int \<Rightarrow> bool \<Rightarrow> int option \<Rightarrow> tzicalvtzcomp option
     \<Rightarrow> py_error + tzicalvtzcomp option" where
  "latest_comp [] dt fld lastcompdt lastcomp = Inr lastcomp"
| "latest_comp (c # rest) dt fld lastcompdt lastcomp =
     (case find_compdt c dt fld of
        Inl e \<Rightarrow> Inl e
      | Inr None \<Rightarrow> latest_comp rest dt fld lastcompdt lastcomp
      | Inr (Some compdt) \<Rightarrow>
          if (case lastcompdt of None \<Rightarrow> True | Some l \<Rightarrow> l < compdt)
          then latest_comp rest dt fld (Some compdt) (Some c)
          else latest_comp rest dt fld lastcompdt lastcomp)"

text \<open>
  The second loop, run when no component has occurred: the first component that is not
  DST. When the loop ends without a \<open>break\<close>, its \<open>else\<close> clause evaluates \<open>comp[0]\<close>,
  where \<open>comp\<close> is the loop variable: the last component, an object that cannot be
  subscripted (\<open>TypeError\<close>), or an unbound name when there is no component.
\<close>

definition fallback_comp :: "tzicalvtzcomp list \<Rightarrow> py_error + tzicalvtzcomp" where
  "fallback_comp cs =
     (case find (\<lambda>c. \<not> isdst c) cs of
        Some c \<Rightarrow> Inr c
      | None \<Rightarrow> (case cs of [] \<Rightarrow> Inl UnboundLocalError | _ \<Rightarrow> Inl TypeError))"

definition cache_lookup :: "tzicalvtz \<Rightarrow> int \<times> bool \<Rightarrow> (py_error + tzicalvtzcomp) option" where
  "cache_lookup self key =
     (case index_of (cachedate self) key of
        None \<Rightarrow> None
      | Some i \<Rightarrow>
          if i < length (cachecomp self) then Some (Inr (cachecomp self ! i))
          else Some (Inl IndexError))"

definition cache_insert :: "tzicalvtz \<Rightarrow> int \<times> bool \<Rightarrow> tzicalvtzcomp \<Rightarrow> tzicalvtz" where
  "cache_insert self key lastcomp =
     (let cd = key # cachedate self; cc = lastcomp # cachecomp self
      in if length cd > 10 then self\<lparr>cachedate := butlast cd, cachecomp := butlast cc\<rparr>
         else self\<lparr>cachedate := cd, cachecomp := cc\<rparr>)"

text \<open>\<open>_find_comp\<close> returns the component and the zone with its cache updated.\<close>

definition find_comp :: "tzicalvtz \<Rightarrow> datetime \<Rightarrow> py_error + (tzicalvtzcomp \<times> tzicalvtz)" where
  "find_comp self dt =
     (case comps self of
        [only] \<Rightarrow> Inr (only, self)
      | cs \<Rightarrow>
          (let key = (dt_wall dt, dt_fold dt)
           in case cache_lookup self key of
                Some (Inr c) \<Rightarrow> Inr (c, self)
              | Some (Inl e) \<Rightarrow> Inl e
              | None \<Rightarrow>
                  (case latest_comp cs (dt_wall dt) (dt_fold dt) None None of
                     Inl e \<Rightarrow> Inl e
                   | Inr found \<Rightarrow>
                       (case (case found of Some c \<Rightarrow> Inr c | None \<Rightarrow> fallback_comp cs) of
                          Inl e \<Rightarrow> Inl e
                        | Inr lastcomp \<Rightarrow> Inr (lastcomp, cache_insert self key lastcomp)))))"

text \<open>The three queries of the zone on a datetime (\<open>utcoffset(None)\<close> is \<open>None\<close>).\<close>

definition vtz_utcoffset :: "tzicalvtz \<Rightarrow> datetime option \<Rightarrow> py_error + (int option \<times> tzicalvtz)" where
  "vtz_utcoffset self dt =
     (case dt of
        None \<Rightarrow> Inr (None, self)
      | Some d \<Rightarrow>
          (case find_comp self d of
             Inl e \<Rightarrow> Inl e
           | Inr (c, self') \<Rightarrow> Inr (Some (tzoffsetto c), self')))"

definition vtz_dst :: "tzicalvtz \<Rightarrow> datetime \<Rightarrow> py_error + (int \<times> tzicalvtz)" where
  "vtz_dst self dt =
     (case find_comp self dt of
        Inl e \<Rightarrow> Inl e
      | Inr (c, self') \<Rightarrow> Inr (if isdst c then tzoffsetdiff c else ZERO, self'))"

definition vtz_tzname :: "tzicalvtz \<Rightarrow> datetime \<Rightarrow> py_error + (string option \<times> tzicalvtz)" where
  "vtz_tzname self dt =
     (case find_comp self dt of
        Inl e \<Rightarrow> Inl e
      | Inr (c, self') \<Rightarrow> Inr (tzname c, self'))"


text \<open>
  Zones to run \<open>_find_comp\<close> on. Each component first occurs at a reading after
  \<open>early\<close>, so at \<open>early\<close> no component has occurred. \<open>all_daylight_zone\<close> has two
  \<open>DAYLIGHT\<close> components; \<open>mixed_zone\<close> has a \<open>STANDARD\<close> one between them.
\<close>

definition daylight_a :: tzicalvtzcomp where
  "daylight_a = tzicalvtzcomp_init (- 18000) (- 14400) True (Some ''EDT'')
                  (Some (\<lambda>dt. if 1000 \<le> dt then Some 1000 else None))"

definition daylight_b :: tzicalvtzcomp where
  "daylight_b = tzicalvtzcomp_init (- 14400) (- 10800) True (Some ''EDDT'')
                  (Some (\<lambda>dt. if 2000 \<le> dt then Some 2000 else None))"

definition standard_c :: tzicalvtzcomp where
  "standard_c = tzicalvtzcomp_init (- 14400) (- 18000) False (Some ''EST'')
                  (Some (\<lambda>dt. if 3000 \<le> dt then Some 3000 else None))"

definition all_daylight_zone :: tzicalvtz where
  "all_daylight_zone = tzicalvtz_init ''Test'' [daylight_a, daylight_b]"

definition mixed_zone :: tzicalvtz where
  "mixed_zone = tzicalvtz_init ''Test'' [daylight_a, standard_c, daylight_b]"

definition early :: datetime where
  "early = \<lparr>dt_wall = 0, dt_fold = False, dt_tzinfo = None\<rparr>"

section \<open>Parsing \<open>VTIMEZONE\<close> text: \<open>tzical\<close>\<close>

subsection \<open>Strings\<close>

text \<open>
  Text is a list of ASCII characters. \<open>is_space\<close> is the ASCII whitespace that
  \<open>str.strip\<close> and \<open>str.rstrip\<close> remove, \<open>upper\<close> the ASCII part of \<open>str.upper\<close>.
  \<open>split_once\<close> is \<open>s.split(sep, 1)\<close> when it gives two parts (\<open>None\<close> when \<open>sep\<close> does
  not occur), \<open>split_all\<close> is \<open>s.split(sep)\<close>, \<open>join\<close> is \<open>sep.join(parts)\<close>.
\<close>

definition is_space :: "char \<Rightarrow> bool" where
  "is_space ch = (ch \<in> set [CHR 0x09, CHR 0x0A, CHR 0x0B, CHR 0x0C, CHR 0x0D,
                             CHR 0x1C, CHR 0x1D, CHR 0x1E, CHR 0x1F, CHR 0x20])"

definition lstrip :: "string \<Rightarrow> string" where
  "lstrip s = dropWhile is_space s"

definition rstrip :: "string \<Rightarrow> string" where
  "rstrip s = rev (dropWhile is_space (rev s))"

definition strip :: "string \<Rightarrow> string" where
  "strip s = rstrip (lstrip s)"

definition upper_char :: "char \<Rightarrow> char" where
  "upper_char ch =
     (let n = (of_char ch :: nat) in if 97 \<le> n \<and> n \<le> 122 then char_of (n - 32) else ch)"

definition upper :: "string \<Rightarrow> string" where
  "upper s = map upper_char s"

fun split_once :: "char \<Rightarrow> string \<Rightarrow> (string \<times> string) option" where
  "split_once sep [] = None"
| "split_once sep (ch # rest) =
     (if ch = sep then Some ([], rest)
      else (case split_once sep rest of
              None \<Rightarrow> None
            | Some (a, b) \<Rightarrow> Some (ch # a, b)))"

fun split_all :: "char \<Rightarrow> string \<Rightarrow> string list" where
  "split_all sep [] = [[]]"
| "split_all sep (ch # rest) =
     (if ch = sep then [] # split_all sep rest
      else (case split_all sep rest of
              [] \<Rightarrow> [[ch]]
            | x # xs \<Rightarrow> (ch # x) # xs))"

fun join :: "string \<Rightarrow> string list \<Rightarrow> string" where
  "join sep [] = []"
| "join sep [x] = x"
| "join sep (x # y # ys) = x @ sep @ join sep (y # ys)"

text \<open>
  \<open>int(s)\<close> on ASCII text: whitespace around, an optional sign, then decimal digits, where
  single underscores may stand between digits. Anything else is a \<open>ValueError\<close> (its
  message quotes the text).
\<close>

definition is_digit :: "char \<Rightarrow> bool" where
  "is_digit ch = (let n = (of_char ch :: nat) in 48 \<le> n \<and> n \<le> 57)"

fun digits_ok :: "string \<Rightarrow> bool" where
  "digits_ok [] = False"
| "digits_ok [ch] = is_digit ch"
| "digits_ok (ch # nxt # rest) =
     (if is_digit ch then digits_ok (nxt # rest)
      else ch = CHR ''_'' \<and> is_digit nxt \<and> digits_ok (nxt # rest))"

definition digits_value :: "string \<Rightarrow> int" where
  "digits_value s =
     foldl (\<lambda>acc ch. if ch = CHR ''_'' then acc else acc * 10 + (int (of_char ch) - 48)) 0 s"

definition py_int :: "string \<Rightarrow> py_error + int" where
  "py_int s =
     (let t = strip s;
          u = (case t of [] \<Rightarrow> [] | ch # rest \<Rightarrow> if ch = CHR ''+'' \<or> ch = CHR ''-'' then rest else t);
          neg = (case t of [] \<Rightarrow> False | ch # rest \<Rightarrow> ch = CHR ''-'')
      in if u \<noteq> [] \<and> is_digit (hd u) \<and> digits_ok u
         then Inr (if neg then - digits_value u else digits_value u)
         else Inl (ValueError (''invalid literal for int() with base 10: '' @ [CHR 0x27] @ s @ [CHR 0x27])))"

subsection \<open>\<open>_parse_offset\<close>\<close>

definition parse_offset :: "string \<Rightarrow> py_error + int" where
  "parse_offset s0 =
     (let s1 = strip s0
      in if s1 = [] then Inl (ValueError ''empty offset'')
         else
           (let signed = (hd s1 = CHR ''+'' \<or> hd s1 = CHR ''-'');
                signal = (if signed then (if hd s1 = CHR ''+'' then 1 else - 1) else 1);
                s = (if signed then tl s1 else s1)
            in if length s = 4
               then (case py_int (take 2 s) of
                       Inl e \<Rightarrow> Inl e
                     | Inr hh \<Rightarrow>
                         (case py_int (drop 2 s) of
                            Inl e \<Rightarrow> Inl e
                          | Inr mm \<Rightarrow> Inr ((hh * 3600 + mm * 60) * signal)))
               else if length s = 6
               then (case py_int (take 2 s) of
                       Inl e \<Rightarrow> Inl e
                     | Inr hh \<Rightarrow>
                         (case py_int (take 2 (drop 2 s)) of
                            Inl e \<Rightarrow> Inl e
                          | Inr mm \<Rightarrow>
                              (case py_int (drop 4 s) of
                                 Inl e \<Rightarrow> Inl e
                               | Inr ss \<Rightarrow> Inr ((hh * 3600 + mm * 60 + ss) * signal))))
               else Inl (ValueError (''invalid offset: '' @ s))))"

subsection \<open>\<open>_parse_rfc\<close>\<close>

text \<open>
  The unfolding loop works on the list of lines in place, with an index \<open>i\<close>. Here the
  lines before \<open>i\<close> are kept in reverse (\<open>done\<close>), so that \<open>lines[i-1]\<close> is its head and
  \<open>i > 0\<close> says it is not empty. A line is tested after \<open>rstrip()\<close> but kept as it was.
\<close>

fun unfold_lines :: "string list \<Rightarrow> string list \<Rightarrow> string list" where
  "unfold_lines done [] = rev done"
| "unfold_lines done (l # rest) =
     (let line = rstrip l
      in if line = [] then unfold_lines done rest
         else if done \<noteq> [] \<and> hd line = CHR '' ''
         then unfold_lines ((hd done @ tl line) # tl done) rest
         else unfold_lines (l # done) rest)"

text \<open>
  The local variables of the main loop and the dictionary \<open>self._vtz\<close> (in insertion
  order). The variables of a component are read only while \<open>comptype\<close> is set, after
  \<open>BEGIN\<close> has assigned them.
\<close>

record parse_state =
  ps_tzid :: "string option"
  ps_comps :: "tzicalvtzcomp list"
  ps_invtz :: bool
  ps_comptype :: "string option"
  ps_founddtstart :: bool
  ps_tzoffsetfrom :: "int option"
  ps_tzoffsetto :: "int option"
  ps_rrulelines :: "string list"
  ps_tzname :: "string option"
  ps_vtz :: "(string \<times> tzicalvtz) list"

definition parse_state_init :: parse_state where
  "parse_state_init =
     \<lparr>ps_tzid = None, ps_comps = [], ps_invtz = False, ps_comptype = None,
      ps_founddtstart = False, ps_tzoffsetfrom = None, ps_tzoffsetto = None,
      ps_rrulelines = [], ps_tzname = None, ps_vtz = []\<rparr>"

definition dict_set :: "('k \<times> 'v) list \<Rightarrow> 'k \<Rightarrow> 'v \<Rightarrow> ('k \<times> 'v) list" where
  "dict_set d k v =
     (if k \<in> fst ` set d then map (\<lambda>kv. if fst kv = k then (k, v) else kv) d else d @ [(k, v)])"

text \<open>
  \<open>END\<close> of a component. The recurrence is built by \<open>rrule.rrulestr\<close>, the external
  evaluator, an argument here; it can raise.
\<close>

definition end_component ::
  "(string \<Rightarrow> py_error + (int \<Rightarrow> int option)) \<Rightarrow> parse_state \<Rightarrow> py_error + parse_state" where
  "end_component rrulestr st =
     (if \<not> ps_founddtstart st then Inl (ValueError ''mandatory DTSTART not found'')
      else
        (case ps_tzoffsetfrom st of
           None \<Rightarrow> Inl (ValueError ''mandatory TZOFFSETFROM not found'')
         | Some offsetfrom \<Rightarrow>
             (case ps_tzoffsetto st of
                None \<Rightarrow> Inl (ValueError ''mandatory TZOFFSETFROM not found'')
              | Some offsetto \<Rightarrow>
                  (case (if ps_rrulelines st \<noteq> []
                         then (case rrulestr (join [CHR 0x0A] (ps_rrulelines st)) of
                                 Inl e \<Rightarrow> Inl e
                               | Inr rr \<Rightarrow> Inr (Some rr))
                         else Inr None) of
                     Inl e \<Rightarrow> Inl e
                   | Inr rr \<Rightarrow>
                       Inr (st\<lparr>ps_comps := ps_comps st @
                                   [tzicalvtzcomp_init offsetfrom offsetto
                                      (ps_comptype st = Some ''DAYLIGHT'') (ps_tzname st) rr],
                                ps_comptype := None\<rparr>)))))"

definition end_vtimezone :: "parse_state \<Rightarrow> py_error + parse_state" where
  "end_vtimezone st =
     (if str_bool (ps_comptype st)
      then Inl (ValueError (''component not closed: '' @ (case ps_comptype st of Some ct \<Rightarrow> ct | None \<Rightarrow> [])))
      else
        (case ps_tzid st of
           None \<Rightarrow> Inl (ValueError ''mandatory TZID not found'')
         | Some name \<Rightarrow>
             if name = [] then Inl (ValueError ''mandatory TZID not found'')
             else if ps_comps st = [] then Inl (ValueError ''at least one component is needed'')
             else Inr (st\<lparr>ps_vtz := dict_set (ps_vtz st) name (tzicalvtz_init name (ps_comps st)),
                          ps_invtz := False\<rparr>)))"

text \<open>A property line inside a component (\<open>comptype\<close> is set).\<close>

definition component_property ::
  "parse_state \<Rightarrow> string \<Rightarrow> string \<Rightarrow> string list \<Rightarrow> string \<Rightarrow> py_error + parse_state" where
  "component_property st line name parms val =
     (if name = ''DTSTART''
      then (case find (\<lambda>parm. parm \<noteq> ''VALUE=DATE-TIME'') parms of
              Some parm \<Rightarrow> Inl (ValueError (''Unsupported DTSTART param in VTIMEZONE: '' @ parm))
            | None \<Rightarrow> Inr (st\<lparr>ps_rrulelines := ps_rrulelines st @ [line],
                              ps_founddtstart := True\<rparr>))
      else if name \<in> set [''RRULE'', ''RDATE'', ''EXRULE'', ''EXDATE'']
      then Inr (st\<lparr>ps_rrulelines := ps_rrulelines st @ [line]\<rparr>)
      else if name = ''TZOFFSETFROM''
      then (case parms of
              parm # _ \<Rightarrow> Inl (ValueError (''unsupported '' @ name @ '' parm: '' @ parm @ '' ''))
            | [] \<Rightarrow> (case parse_offset val of
                       Inl e \<Rightarrow> Inl e
                     | Inr off \<Rightarrow> Inr (st\<lparr>ps_tzoffsetfrom := Some off\<rparr>)))
      else if name = ''TZOFFSETTO''
      then (case parms of
              parm # _ \<Rightarrow> Inl (ValueError (''unsupported TZOFFSETTO parm: '' @ parm))
            | [] \<Rightarrow> (case parse_offset val of
                       Inl e \<Rightarrow> Inl e
                     | Inr off \<Rightarrow> Inr (st\<lparr>ps_tzoffsetto := Some off\<rparr>)))
      else if name = ''TZNAME''
      then (case parms of
              parm # _ \<Rightarrow> Inl (ValueError (''unsupported TZNAME parm: '' @ parm))
            | [] \<Rightarrow> Inr (st\<lparr>ps_tzname := Some val\<rparr>))
      else if name = ''COMMENT'' then Inr st
      else Inl (ValueError (''unsupported property: '' @ name)))"

text \<open>A property line of the \<open>VTIMEZONE\<close> itself.\<close>

definition vtimezone_property ::
  "parse_state \<Rightarrow> string \<Rightarrow> string list \<Rightarrow> string \<Rightarrow> py_error + parse_state" where
  "vtimezone_property st name parms val =
     (if name = ''TZID''
      then (case parms of
              parm # _ \<Rightarrow> Inl (ValueError (''unsupported TZID parm: '' @ parm))
            | [] \<Rightarrow> Inr (st\<lparr>ps_tzid := Some val\<rparr>))
      else if name \<in> set [''TZURL'', ''LAST-MODIFIED'', ''COMMENT''] then Inr st
      else Inl (ValueError (''unsupported property: '' @ name)))"

text \<open>
  One turn of the main loop. Unpacking \<open>line.split(':', 1)\<close> into two names is a
  \<open>ValueError\<close> when the line has no colon.
\<close>

definition parse_line ::
  "(string \<Rightarrow> py_error + (int \<Rightarrow> int option)) \<Rightarrow> parse_state \<Rightarrow> string \<Rightarrow> py_error + parse_state" where
  "parse_line rrulestr st line =
     (if line = [] then Inr st
      else
        (case split_once CHR '':'' line of
           None \<Rightarrow> Inl (ValueError ''not enough values to unpack (expected 2, got 1)'')
         | Some (name0, val) \<Rightarrow>
             (let parms0 = split_all CHR '';'' name0;
                  name = upper (hd parms0);
                  parms = tl parms0
              in if parms0 = [] then Inl (ValueError ''empty property name'')
                 else if ps_invtz st
                 then
                   (if name = ''BEGIN''
                    then (if val = ''STANDARD'' \<or> val = ''DAYLIGHT''
                          then Inr (st\<lparr>ps_comptype := Some val, ps_founddtstart := False,
                                       ps_tzoffsetfrom := None, ps_tzoffsetto := None,
                                       ps_rrulelines := [], ps_tzname := None\<rparr>)
                          else Inl (ValueError (''unknown component: '' @ val)))
                    else if name = ''END''
                    then (if val = ''VTIMEZONE'' then end_vtimezone st
                          else if Some val = ps_comptype st then end_component rrulestr st
                          else Inl (ValueError (''invalid component end: '' @ val)))
                    else if str_bool (ps_comptype st)
                    then component_property st line name parms val
                    else vtimezone_property st name parms val)
                 else if name = ''BEGIN'' \<and> val = ''VTIMEZONE''
                 then Inr (st\<lparr>ps_tzid := None, ps_comps := [], ps_invtz := True\<rparr>)
                 else Inr st)))"

fun parse_lines ::
  "(string \<Rightarrow> py_error + (int \<Rightarrow> int option)) \<Rightarrow> parse_state \<Rightarrow> string list
     \<Rightarrow> py_error + parse_state" where
  "parse_lines rrulestr st [] = Inr st"
| "parse_lines rrulestr st (line # rest) =
     (case parse_line rrulestr st line of
        Inl e \<Rightarrow> Inl e
      | Inr st' \<Rightarrow> parse_lines rrulestr st' rest)"

text \<open>
  \<open>_parse_rfc\<close> from the lines of the text (\<open>s.splitlines()\<close>); the result is the
  dictionary \<open>self._vtz\<close>, which \<open>tzical.__init__\<close> creates empty.
\<close>

definition parse_rfc ::
  "(string \<Rightarrow> py_error + (int \<Rightarrow> int option)) \<Rightarrow> string list
     \<Rightarrow> py_error + (string \<times> tzicalvtz) list" where
  "parse_rfc rrulestr lines =
     (if lines = [] then Inl (ValueError ''empty string'')
      else (case parse_lines rrulestr parse_state_init (unfold_lines [] lines) of
              Inl e \<Rightarrow> Inl e
            | Inr st \<Rightarrow> Inr (ps_vtz st)))"

text \<open>
  Three texts, as their lines: a \<open>VTIMEZONE\<close> whose \<open>STANDARD\<close> component lacks
  \<open>TZOFFSETTO\<close>, \<open>TZOFFSETFROM\<close> or \<open>DTSTART\<close>.
\<close>

definition missing_tzoffsetto :: "string list" where
  "missing_tzoffsetto =
     [''BEGIN:VTIMEZONE'', ''TZID:Test'', ''BEGIN:STANDARD'', ''DTSTART:19671029T020000'',
      ''TZOFFSETFROM:-0400'', ''TZNAME:EST'', ''END:STANDARD'', ''END:VTIMEZONE'']"

definition missing_tzoffsetfrom :: "string list" where
  "missing_tzoffsetfrom =
     [''BEGIN:VTIMEZONE'', ''TZID:Test'', ''BEGIN:STANDARD'', ''DTSTART:19671029T020000'',
      ''TZOFFSETTO:-0500'', ''TZNAME:EST'', ''END:STANDARD'', ''END:VTIMEZONE'']"

definition missing_dtstart :: "string list" where
  "missing_dtstart =
     [''BEGIN:VTIMEZONE'', ''TZID:Test'', ''BEGIN:STANDARD'', ''TZOFFSETFROM:-0400'',
      ''TZOFFSETTO:-0500'', ''TZNAME:EST'', ''END:STANDARD'', ''END:VTIMEZONE'']"

section \<open>The zone registry: \<open>gettz\<close>\<close>

text \<open>
  An \<open>OrderedDict\<close> is the list of its items, oldest first: \<open>pop(key, default)\<close> takes
  the item out, assigning a key that is absent appends it, and \<open>popitem(last=False)\<close>
  takes the first item, a \<open>KeyError\<close> when there is none.
\<close>

type_synonym 'z ordered_dict = "(string \<times> 'z) list"

definition od_pop :: "'z ordered_dict \<Rightarrow> string \<Rightarrow> 'z \<Rightarrow> 'z \<times> 'z ordered_dict" where
  "od_pop d k dflt =
     (case map_of d k of
        None \<Rightarrow> (dflt, d)
      | Some v \<Rightarrow> (v, filter (\<lambda>kv. fst kv \<noteq> k) d))"

definition od_setitem :: "'z ordered_dict \<Rightarrow> string \<Rightarrow> 'z \<Rightarrow> 'z ordered_dict" where
  "od_setitem d k v =
     (case map_of d k of
        None \<Rightarrow> d @ [(k, v)]
      | Some _ \<Rightarrow> map (\<lambda>kv. if fst kv = k then (k, v) else kv) d)"

definition od_popitem_first ::
  "'z ordered_dict \<Rightarrow> py_error + ((string \<times> 'z) \<times> 'z ordered_dict)" where
  "od_popitem_first d = (case d of [] \<Rightarrow> Inl KeyError | kv # rest \<Rightarrow> Inr (kv, rest))"

text \<open>
  The state of a \<open>GettzFunc\<close>: the weak dictionary \<open>__instances\<close>, the size and the
  strong cache. Zone objects are of any type \<open>'z\<close>; \<open>is_tzlocal\<close> says which are
  instances of the local-zone classes. The resolution \<open>nocache\<close> reads the file system and
  the environment, so it is an argument of each call.
\<close>

record 'z gettz_state =
  instances :: "string \<rightharpoonup> 'z"
  strong_cache_size :: int
  strong_cache :: "'z ordered_dict"

definition gettz_init :: "'z gettz_state" where
  "gettz_init = \<lparr>instances = Map.empty, strong_cache_size = 8, strong_cache = []\<rparr>"

text \<open>
  The two statements that follow the lookup in \<open>__call__\<close>:
  \<open>strong_cache[name] = strong_cache.pop(name, rv)\<close>, then one \<open>popitem(last=False)\<close>
  when the cache is longer than its size.
\<close>

definition strong_cache_touch ::
  "'z gettz_state \<Rightarrow> string \<Rightarrow> 'z \<Rightarrow> py_error + 'z gettz_state" where
  "strong_cache_touch st name rv =
     (let (v, d1) = od_pop (strong_cache st) name rv;
          d2 = od_setitem d1 name v
      in if int (length d2) > strong_cache_size st
         then (case od_popitem_first d2 of
                 Inl e \<Rightarrow> Inl e
               | Inr (_, d3) \<Rightarrow> Inr (st\<lparr>strong_cache := d3\<rparr>))
         else Inr (st\<lparr>strong_cache := d2\<rparr>))"

text \<open>
  \<open>__call__(name)\<close>. The weak dictionary never holds the key \<open>None\<close>. A result that is
  \<open>None\<close>, a local zone, or the result for the name \<open>None\<close> is returned without caching.
\<close>

definition gettz_call ::
  "('z \<Rightarrow> bool) \<Rightarrow> (string option \<Rightarrow> 'z option) \<Rightarrow> 'z gettz_state \<Rightarrow> string option
     \<Rightarrow> py_error + ('z option \<times> 'z gettz_state)" where
  "gettz_call is_tzlocal nocache st name =
     (case (case name of None \<Rightarrow> None | Some n \<Rightarrow> instances st n) of
        Some rv \<Rightarrow>
          (case name of
             None \<Rightarrow> Inr (Some rv, st)
           | Some n \<Rightarrow>
               (case strong_cache_touch st n rv of
                  Inl e \<Rightarrow> Inl e
                | Inr st' \<Rightarrow> Inr (Some rv, st')))
      | None \<Rightarrow>
          (case (name, nocache name) of
             (Some n, Some rv) \<Rightarrow>
               if is_tzlocal rv then Inr (Some rv, st)
               else (case strong_cache_touch (st\<lparr>instances := (instances st)(n \<mapsto> rv)\<rparr>) n rv of
                       Inl e \<Rightarrow> Inl e
                     | Inr st' \<Rightarrow> Inr (Some rv, st'))
           | (_, rv) \<Rightarrow> Inr (rv, st)))"

text \<open>
  \<open>set_cache_size(size)\<close>: the size is stored first, then the loop
  \<open>while len(cache) > size: cache.popitem(last=False)\<close> runs; with a negative size it
  empties the cache and raises \<open>KeyError\<close>. The state is returned in both cases.
\<close>

fun evict_to :: "'z ordered_dict \<Rightarrow> int \<Rightarrow> (py_error + unit) \<times> 'z ordered_dict" where
  "evict_to [] n = (if 0 > n then (Inl KeyError, []) else (Inr (), []))"
| "evict_to (kv # rest) n =
     (if int (length (kv # rest)) > n then evict_to rest n else (Inr (), kv # rest))"

definition set_cache_size :: "'z gettz_state \<Rightarrow> int \<Rightarrow> (py_error + unit) \<times> 'z gettz_state" where
  "set_cache_size st n =
     (let (r, d) = evict_to (strong_cache st) n
      in (r, st\<lparr>strong_cache_size := n, strong_cache := d\<rparr>))"

definition cache_clear :: "'z gettz_state \<Rightarrow> 'z gettz_state" where
  "cache_clear st = st\<lparr>instances := Map.empty, strong_cache := []\<rparr>"

text \<open>
  An entry of the weak dictionary goes away when its zone is collected. Which entries
  go is not decided by the registry: \<open>weak_collect\<close> drops any set of keys.
\<close>

definition weak_collect :: "'z gettz_state \<Rightarrow> string set \<Rightarrow> 'z gettz_state" where
  "weak_collect st dead = st\<lparr>instances := (\<lambda>k. if k \<in> dead then None else instances st k)\<rparr>"

text \<open>Histories of a registry: any sequence of the operations, from the initial state.\<close>

datatype 'z gettz_op =
    Call "string option" "string option \<Rightarrow> 'z option"
  | SetCacheSize int
  | CacheClear
  | Collect "string set"

fun gettz_step :: "('z \<Rightarrow> bool) \<Rightarrow> 'z gettz_state \<Rightarrow> 'z gettz_op \<Rightarrow> 'z gettz_state" where
  "gettz_step is_tzlocal st (Call name nocache) =
     (case gettz_call is_tzlocal nocache st name of Inl e \<Rightarrow> st | Inr (_, st') \<Rightarrow> st')"
| "gettz_step is_tzlocal st (SetCacheSize n) = snd (set_cache_size st n)"
| "gettz_step is_tzlocal st CacheClear = cache_clear st"
| "gettz_step is_tzlocal st (Collect dead) = weak_collect st dead"

definition gettz_run :: "('z \<Rightarrow> bool) \<Rightarrow> 'z gettz_op list \<Rightarrow> 'z gettz_state" where
  "gettz_run is_tzlocal ops = foldl (gettz_step is_tzlocal) gettz_init ops"

text \<open>A history configures sizes of zero or more entries.\<close>

fun size_nonneg :: "'z gettz_op \<Rightarrow> bool" where
  "size_nonneg (SetCacheSize n) = (0 \<le> n)"
| "size_nonneg _ = True"

definition bounded :: "'z gettz_state \<Rightarrow> bool" where
  "bounded st = (int (length (strong_cache st)) \<le> strong_cache_size st)"

text \<open>
  The retention policy in the spec's words, to compare the code with: using a key
  makes it the most recent entry (it keeps the zone it already holds), and when the list
  is then longer than the bound the least recently used entry, the first, is dropped.
\<close>

definition lru_touch_spec :: "'z ordered_dict \<Rightarrow> int \<Rightarrow> string \<Rightarrow> 'z \<Rightarrow> 'z ordered_dict" where
  "lru_touch_spec d n k rv =
     (let v = (case map_of d k of None \<Rightarrow> rv | Some w \<Rightarrow> w);
          d' = filter (\<lambda>kv. fst kv \<noteq> k) d @ [(k, v)]
      in if int (length d') > n then tl d' else d')"

text \<open>
  A history to run the registry on: the size is set to 2, then three zones are resolved
  (zones are numbers here, none of them a local zone).
\<close>

definition example_history :: "nat gettz_op list" where
  "example_history =
     [SetCacheSize 2, Call (Some ''A'') (\<lambda>n. Some 1), Call (Some ''B'') (\<lambda>n. Some 2),
      Call (Some ''C'') (\<lambda>n. Some 3)]"

text \<open>A history that configures a negative size and then resolves one zone.\<close>

definition negative_size_history :: "nat gettz_op list" where
  "negative_size_history = [SetCacheSize (- 1), Call (Some ''A'') (\<lambda>n. Some 1)]"

section \<open>Existence, ambiguity and \<open>resolve_imaginary\<close>\<close>

text \<open>
  A zone object is what these functions call on it: \<open>utcoffset(dt)\<close> and \<open>dst(dt)\<close>
  (through \<open>dt.utcoffset()\<close> and \<open>dt.dst()\<close> of a datetime in the zone), \<open>fromutc(dt)\<close>,
  and \<open>is_ambiguous(dt)\<close>, which a zone may lack (\<open>None\<close>) and which may raise. Every
  zone reports an offset for a datetime. Zone objects are reached by reference, \<open>Z\<close>
  maps the references to the objects. \<open>UTC\<close> is the \<open>tzutc\<close> singleton.
\<close>

record zone =
  z_utcoffset :: "datetime \<Rightarrow> int"
  z_dst :: "datetime \<Rightarrow> int option"
  z_fromutc :: "datetime \<Rightarrow> datetime"
  z_is_ambiguous :: "(datetime \<Rightarrow> py_error + bool) option"

definition UTC :: tzref where
  "UTC = 0"

definition tzutc_zone :: zone where
  "tzutc_zone =
     \<lparr>z_utcoffset = (\<lambda>dt. ZERO), z_dst = (\<lambda>dt. Some ZERO), z_fromutc = (\<lambda>dt. dt),
      z_is_ambiguous = Some (\<lambda>dt. Inr False)\<rparr>"

definition zone_of :: "(tzref \<Rightarrow> zone) \<Rightarrow> tzref \<Rightarrow> zone" where
  "zone_of Z r = (if r = UTC then tzutc_zone else Z r)"

text \<open>\<open>dt + delta\<close> for a \<open>timedelta\<close>: the zone is kept, \<open>fold\<close> is 0.\<close>

definition dt_add :: "datetime \<Rightarrow> int \<Rightarrow> datetime" where
  "dt_add dt delta = dt\<lparr>dt_wall := dt_wall dt + delta, dt_fold := False\<rparr>"

text \<open>
  \<open>self.astimezone(tz)\<close> of the host's \<open>datetime\<close>, for an aware \<open>self\<close> whose zone is
  \<open>mytz\<close>: \<open>self\<close> itself when \<open>tz is mytz\<close>, else \<open>tz.fromutc\<close> of
  \<open>(self - offset).replace(tzinfo=tz)\<close>. Both calls in \<open>datetime_exists\<close> are on a
  datetime whose zone is known: the one just set, then \<open>UTC\<close>.
\<close>

definition astimezone :: "(tzref \<Rightarrow> zone) \<Rightarrow> tzref \<Rightarrow> datetime \<Rightarrow> tzref \<Rightarrow> datetime" where
  "astimezone Z mytz self tz =
     (if tz = mytz then self
      else z_fromutc (zone_of Z tz)
             ((dt_add self (- z_utcoffset (zone_of Z mytz) self))\<lparr>dt_tzinfo := Some tz\<rparr>))"

text \<open>The first lines of both functions: the zone to use, or the \<open>ValueError\<close>.\<close>

definition zone_argument :: "datetime \<Rightarrow> tzref option \<Rightarrow> py_error + tzref" where
  "zone_argument dt tz =
     (case tz of
        Some z \<Rightarrow> Inr z
      | None \<Rightarrow>
          (case dt_tzinfo dt of
             None \<Rightarrow> Inl (ValueError ''Datetime is naive and no time zone provided.'')
           | Some z \<Rightarrow> Inr z))"

definition datetime_exists :: "(tzref \<Rightarrow> zone) \<Rightarrow> datetime \<Rightarrow> tzref option \<Rightarrow> py_error + bool" where
  "datetime_exists Z dt tz_arg =
     (case zone_argument dt tz_arg of
        Inl e \<Rightarrow> Inl e
      | Inr tz \<Rightarrow>
          (let dt0 = dt\<lparr>dt_tzinfo := None\<rparr>;
               dt_utc = astimezone Z tz (dt0\<lparr>dt_tzinfo := Some tz\<rparr>) UTC;
               dt_rt = (astimezone Z UTC dt_utc tz)\<lparr>dt_tzinfo := None\<rparr>
           in Inr (dt_wall dt0 = dt_wall dt_rt)))"


text \<open>
  \<open>resolve_imaginary\<close> returns either the object it was given or a new object
  (\<open>dt += ...\<close> binds the name to the sum, a new datetime).
\<close>

datatype returned = The_argument | A_new_object datetime

definition hours24 :: int where
  "hours24 = timedelta_seconds (24 * 3600)"

definition resolve_imaginary :: "(tzref \<Rightarrow> zone) \<Rightarrow> datetime \<Rightarrow> py_error + returned" where
  "resolve_imaginary Z dt =
     (case dt_tzinfo dt of
        None \<Rightarrow> Inr The_argument
      | Some tz \<Rightarrow>
          (case datetime_exists Z dt None of
             Inl e \<Rightarrow> Inl e
           | Inr ex \<Rightarrow>
               if ex then Inr The_argument
               else
                 (let curr_offset = z_utcoffset (zone_of Z tz) (dt_add dt hours24);
                      old_offset = z_utcoffset (zone_of Z tz) (dt_add dt (- hours24))
                  in Inr (A_new_object (dt_add dt (curr_offset - old_offset))))))"

text \<open>
  Zones to run the functions on. Readings are written as hours and minutes of a day
  whose midnight is the reading 0; \<open>hm h m\<close> is the reading \<open>h:m\<close>.

  \<open>dateline_zone\<close>: the offset is -10:00 until the end of the day before and +14:00
  after, so the whole day from 0:00 to 24:00 is skipped.

  \<open>double_gap_zone\<close>: the offset is 0 until 2:00 UTC, +1:00 until 3:00 UTC and +2:00
  after. The readings from 2:00 to 3:00 and from 4:00 to 5:00 are skipped. In a gap
  \<open>utcoffset\<close> gives the offset after the transition, as a transition table looked up
  by wall time does.
\<close>

definition hm :: "int \<Rightarrow> int \<Rightarrow> int" where
  "hm h m = timedelta_seconds (h * 3600 + m * 60)"


definition double_gap_zone :: zone where
  "double_gap_zone =
     \<lparr>z_utcoffset = (\<lambda>dt. if dt_wall dt < hm 2 0 then ZERO
                           else if dt_wall dt < hm 4 0 then hm 1 0 else hm 2 0),
      z_dst = (\<lambda>dt. Some ZERO),
      z_fromutc = (\<lambda>dt. if dt_wall dt < hm 2 0 then dt
                         else if dt_wall dt < hm 3 0 then dt_add dt (hm 1 0)
                         else dt_add dt (hm 2 0)),
      z_is_ambiguous = Some (\<lambda>dt. Inr False)\<rparr>"


definition in_first_gap :: datetime where
  "in_first_gap = \<lparr>dt_wall = hm 2 30, dt_fold = False, dt_tzinfo = Some 1\<rparr>"





subsection \<open>The \<open>is_ambiguous\<close> methods of the zone classes\<close>














section \<open>Properties\<close>

subsection \<open>Equality of fixed-offset zones\<close>

text \<open>
  C7. Two \<open>tzoffset\<close> instances are equal exactly when their offsets are equal, whatever
  their names; \<open>tzoffset("UTC", 0)\<close> equals \<open>tzutc()\<close>, in both operand orders and under
  both definitions of \<open>_get_supported_offset\<close>; and \<open>tzutc()\<close> equals a \<open>tzoffset\<close>
  exactly when its offset is zero, so it is not equal to any with a nonzero offset.
\<close>

theorem tzoffset_equality:
  "py_eq (TzOffset a) (TzOffset b) = (tzo_offset a = tzo_offset b)
   \<and> py_eq (TzOffset \<lparr>tzo_name = n1, tzo_offset = x\<rparr>) (TzOffset \<lparr>tzo_name = n2, tzo_offset = x\<rparr>)
   \<and> py_eq (TzOffset (tzoffset_init py36 (Some ''UTC'') 0)) TzUtc
   \<and> py_eq TzUtc (TzOffset (tzoffset_init py36 (Some ''UTC'') 0))
   \<and> py_eq TzUtc (TzOffset c) = (tzo_offset c = 0)
   \<and> py_eq (TzOffset c) TzUtc = (tzo_offset c = 0)"
  by (simp add: py_eq_def ZERO_def tzoffset_init_def get_supported_offset_def timedelta_seconds_def)

subsection \<open>The strong cache of \<open>gettz\<close>\<close>

lemma od_pop_length: "od_pop d k v = (w, d1) \<Longrightarrow> length d1 \<le> length d"
  by (auto simp: od_pop_def split: option.splits)

lemma od_pop_absent: "od_pop d k v = (w, d1) \<Longrightarrow> map_of d1 k = None"
  by (auto simp: od_pop_def map_of_eq_None_iff split: option.splits)

lemma touch_shape:
  "\<exists>w d1. od_pop (strong_cache st) n rv = (w, d1) \<and> length d1 \<le> length (strong_cache st) \<and>
     strong_cache_touch st n rv =
       Inr (st\<lparr>strong_cache :=
                 (if int (length d1) + 1 > strong_cache_size st then tl (d1 @ [(n, w)])
                  else d1 @ [(n, w)])\<rparr>)"
proof -
  obtain w d1 where p: "od_pop (strong_cache st) n rv = (w, d1)"
    by (cases "od_pop (strong_cache st) n rv")
  have a: "map_of d1 n = None" using od_pop_absent[OF p] .
  have s: "od_setitem d1 n w = d1 @ [(n, w)]" using a by (simp add: od_setitem_def)
  show ?thesis using p s od_pop_length[OF p]
    by (cases d1) (auto simp: strong_cache_touch_def od_popitem_first_def)
qed

lemma touch_bounded:
  assumes "bounded st" "strong_cache_touch st n rv = Inr st'"
  shows "bounded st'"
  using touch_shape[of st n rv] assms
  by (auto simp: bounded_def split: if_splits)

lemma evict_to_nonneg:
  "0 \<le> n \<Longrightarrow> evict_to d n = (Inr (), drop (length d - nat n) d)"
proof (induction d)
  case Nil
  then show ?case by simp
next
  case (Cons kv rest)
  then show ?case
    by (auto simp: Suc_diff_le)
qed

lemma evict_to_negative:
  "n < 0 \<Longrightarrow> evict_to d n = (Inl KeyError, [])"
  by (induction d) auto

lemma set_cache_size_nonneg:
  "0 \<le> n \<Longrightarrow> set_cache_size st n =
     (Inr (), st\<lparr>strong_cache_size := n,
                 strong_cache := drop (length (strong_cache st) - nat n) (strong_cache st)\<rparr>)"
  by (simp add: set_cache_size_def evict_to_nonneg)

lemma set_cache_size_bounded:
  "0 \<le> n \<Longrightarrow> bounded (snd (set_cache_size st n))"
  by (auto simp: set_cache_size_nonneg bounded_def)

lemma gettz_call_returns:
  "\<exists>rv st'. gettz_call is_tzlocal nocache st name = Inr (rv, st') \<and>
      strong_cache_size st' = strong_cache_size st \<and> (bounded st \<longrightarrow> bounded st')"
proof (cases name)
  case None
  then show ?thesis by (simp add: gettz_call_def)
next
  case (Some n)
  show ?thesis
  proof (cases "instances st n")
    case hit: (Some rv)
    obtain st' where t: "strong_cache_touch st n rv = Inr st'"
      using touch_shape[of st n rv] by auto
    have "strong_cache_size st' = strong_cache_size st"
      using touch_shape[of st n rv] t by auto
    then show ?thesis using Some hit t touch_bounded[OF _ t]
      by (auto simp: gettz_call_def)
  next
    case miss: None
    show ?thesis
    proof (cases "nocache name")
      case None
      then show ?thesis using Some miss by (simp add: gettz_call_def)
    next
      case found: (Some rv)
      let ?st1 = "st\<lparr>instances := (instances st)(n \<mapsto> rv)\<rparr>"
      obtain st' where t: "strong_cache_touch ?st1 n rv = Inr st'"
        using touch_shape[of ?st1 n rv] by auto
      have sz: "strong_cache_size st' = strong_cache_size st"
        using touch_shape[of ?st1 n rv] t by auto
      have b: "bounded st \<Longrightarrow> bounded st'"
        using touch_bounded[OF _ t] by (simp add: bounded_def)
      show ?thesis using Some miss found t sz b
        by (auto simp: gettz_call_def)
    qed
  qed
qed

lemma gettz_step_bounded:
  "bounded st \<Longrightarrow> size_nonneg op \<Longrightarrow> bounded (gettz_step is_tzlocal st op)"
proof (cases op)
  case (Call name nocache)
  assume "bounded st"
  then show ?thesis using Call gettz_call_returns[of is_tzlocal nocache st name]
    by auto
next
  case (SetCacheSize n)
  assume "size_nonneg op"
  then show ?thesis using SetCacheSize by (simp add: set_cache_size_bounded)
next
  case CacheClear
  assume "bounded st"
  then show ?thesis using CacheClear by (simp add: bounded_def cache_clear_def)
next
  case (Collect dead)
  assume "bounded st"
  then show ?thesis using Collect by (simp add: bounded_def weak_collect_def)
qed

lemma foldl_step_bounded:
  "bounded st \<Longrightarrow> \<forall>op \<in> set ops. size_nonneg op \<Longrightarrow>
     bounded (foldl (gettz_step is_tzlocal) st ops)"
  by (induction ops arbitrary: st) (simp_all add: gettz_step_bounded)

lemma gettz_run_bounded:
  "\<forall>op \<in> set ops. size_nonneg op \<Longrightarrow> bounded (gettz_run is_tzlocal ops)"
  unfolding gettz_run_def by (rule foldl_step_bounded) (simp_all add: bounded_def gettz_init_def)

lemma filter_absent: "map_of d k = None \<Longrightarrow> filter (\<lambda>kv. fst kv \<noteq> k) d = d"
  by (induction d) (auto split: if_splits)

lemma touch_is_lru:
  "strong_cache_touch st k rv =
     Inr (st\<lparr>strong_cache := lru_touch_spec (strong_cache st) (strong_cache_size st) k rv\<rparr>)"
proof (cases "map_of (strong_cache st) k")
  case None
  then have p: "od_pop (strong_cache st) k rv = (rv, strong_cache st)"
    by (simp add: od_pop_def)
  show ?thesis using touch_shape[of st k rv] None p
    by (simp add: lru_touch_spec_def filter_absent Let_def)
next
  case (Some w)
  then have p: "od_pop (strong_cache st) k rv = (w, filter (\<lambda>kv. fst kv \<noteq> k) (strong_cache st))"
    by (simp add: od_pop_def)
  show ?thesis using touch_shape[of st k rv] Some p
    by (simp add: lru_touch_spec_def Let_def)
qed

lemma gettz_call_cached:
  assumes "instances st k = Some rv \<or>
           (instances st k = None \<and> nocache (Some k) = Some rv \<and> \<not> is_tzlocal rv)"
  shows "\<exists>w. gettz_call is_tzlocal nocache st (Some k) =
     Inr (Some rv, st\<lparr>instances := w,
        strong_cache := lru_touch_spec (strong_cache st) (strong_cache_size st) k rv\<rparr>)"
  using assms
proof
  assume "instances st k = Some rv"
  then have "gettz_call is_tzlocal nocache st (Some k) =
     Inr (Some rv, st\<lparr>instances := instances st,
        strong_cache := lru_touch_spec (strong_cache st) (strong_cache_size st) k rv\<rparr>)"
    by (simp add: gettz_call_def touch_is_lru)
  then show ?thesis by blast
next
  assume "instances st k = None \<and> nocache (Some k) = Some rv \<and> \<not> is_tzlocal rv"
  then have "gettz_call is_tzlocal nocache st (Some k) =
     Inr (Some rv, st\<lparr>instances := (instances st)(k \<mapsto> rv),
        strong_cache := lru_touch_spec (strong_cache st) (strong_cache_size st) k rv\<rparr>)"
    by (simp add: gettz_call_def touch_is_lru)
  then show ?thesis by blast
qed

text \<open>
  C9, amended. Take any history of a registry in which every configured size is zero or
  more (calls of \<open>gettz\<close>, \<open>set_cache_size\<close> with sizes of zero or more, \<open>cache_clear\<close>,
  collection of weak entries) and let \<open>st\<close> be the state it leaves; the default size is 8. Then the strong cache holds at most the configured
  number of entries. A further call \<open>gettz(name)\<close> returns, leaves the size as it is and
  the cache within it, and, when the zone is one that is cached (found in the weak
  dictionary, or newly resolved and not a local zone), the strong cache is the
  least-recently-used update of the old one: \<open>name\<close> becomes the most recent entry and, if
  the bound is exceeded, the oldest entry is evicted. \<open>set_cache_size(n)\<close> returns with
  the size \<open>n\<close> and exactly the \<open>n\<close> most recent entries left (all of them, if fewer).
  \<open>cache_clear()\<close> leaves the weak dictionary and the strong cache empty.
\<close>

theorem gettz_strong_cache_bounded:
  assumes "\<forall>op \<in> set ops. size_nonneg op"
    and "st = gettz_run is_tzlocal ops"
  shows "strong_cache_size (gettz_init :: 'z gettz_state) = 8
    \<and> int (length (strong_cache st)) \<le> strong_cache_size st
    \<and> (\<exists>rv st'. gettz_call is_tzlocal nocache st name = Inr (rv, st')
           \<and> strong_cache_size st' = strong_cache_size st
           \<and> int (length (strong_cache st')) \<le> strong_cache_size st')
    \<and> (instances st k = Some z \<or>
           (instances st k = None \<and> nocache (Some k) = Some z \<and> \<not> is_tzlocal z) \<longrightarrow>
         (\<exists>st'. gettz_call is_tzlocal nocache st (Some k) = Inr (Some z, st')
           \<and> strong_cache st' = lru_touch_spec (strong_cache st) (strong_cache_size st) k z))
    \<and> (0 \<le> n \<longrightarrow>
         (\<exists>st'. set_cache_size st n = (Inr (), st')
           \<and> strong_cache_size st' = n
           \<and> strong_cache st' = drop (length (strong_cache st) - nat n) (strong_cache st)
           \<and> int (length (strong_cache st')) \<le> n))
    \<and> instances (cache_clear st) = Map.empty \<and> strong_cache (cache_clear st) = []"
proof -
  have b: "bounded st" using assms gettz_run_bounded by blast
  have c1: "strong_cache_size (gettz_init :: 'z gettz_state) = 8" by (simp add: gettz_init_def)
  have c2: "int (length (strong_cache st)) \<le> strong_cache_size st"
    using b by (simp add: bounded_def)
  have c3: "\<exists>rv st'. gettz_call is_tzlocal nocache st name = Inr (rv, st')
           \<and> strong_cache_size st' = strong_cache_size st
           \<and> int (length (strong_cache st')) \<le> strong_cache_size st'"
    using gettz_call_returns[of is_tzlocal nocache st name] b by (auto simp: bounded_def)
  have c4: "\<exists>st'. gettz_call is_tzlocal nocache st (Some k) = Inr (Some z, st')
           \<and> strong_cache st' = lru_touch_spec (strong_cache st) (strong_cache_size st) k z"
    if h: "instances st k = Some z \<or>
           (instances st k = None \<and> nocache (Some k) = Some z \<and> \<not> is_tzlocal z)"
    using gettz_call_cached[where st = st and k = k and rv = z and nocache = nocache
        and is_tzlocal = is_tzlocal] h by auto
  have c5: "\<exists>st'. set_cache_size st n = (Inr (), st')
           \<and> strong_cache_size st' = n
           \<and> strong_cache st' = drop (length (strong_cache st) - nat n) (strong_cache st)
           \<and> int (length (strong_cache st')) \<le> n" if "0 \<le> n"
    using that by (auto simp: set_cache_size_nonneg)
  have c6: "instances (cache_clear st) = Map.empty \<and> strong_cache (cache_clear st) = []"
    by (simp add: cache_clear_def)
  show ?thesis using c1 c2 c3 c4 c5 c6 by blast
qed

lemma example_history_cache:
  "strong_cache (gettz_run (\<lambda>z. False) example_history) = [(''B'', 2), (''C'', 3)]
   \<and> strong_cache_size (gettz_run (\<lambda>z. False) example_history) = 2
   \<and> instances (gettz_run (\<lambda>z. False) example_history) ''A'' = Some 1"
  by (simp add: example_history_def gettz_run_def gettz_init_def set_cache_size_def
      gettz_call_def strong_cache_touch_def od_pop_def od_setitem_def od_popitem_first_def)

text \<open>
  The history \<open>example_history\<close> leaves the zones of \<open>B\<close> and \<open>C\<close> in the strong cache;
  \<open>gettz("A")\<close> then finds the zone 1 in the weak dictionary, evicts \<open>B\<close> and makes
  \<open>A\<close> the most recent entry; \<open>set_cache_size(1)\<close> keeps \<open>C\<close> only.
\<close>

theorem gettz_strong_cache_bounded_witness:
  "int (length (strong_cache (gettz_run (\<lambda>z. False) example_history)))
     \<le> strong_cache_size (gettz_run (\<lambda>z. False) example_history)
   \<and> strong_cache (gettz_run (\<lambda>z. False) example_history) = [(''B'', 2), (''C'', 3)]
   \<and> (\<exists>st'. gettz_call (\<lambda>z. False) (\<lambda>n. Some 4) (gettz_run (\<lambda>z. False) example_history)
                (Some ''A'') = Inr (Some 1, st')
            \<and> strong_cache st' = [(''C'', 3), (''A'', 1)])
   \<and> (\<exists>st'. set_cache_size (gettz_run (\<lambda>z. False) example_history) 1 = (Inr (), st')
            \<and> strong_cache st' = [(''C'', 3)])"
proof -
  have h: "\<forall>op \<in> set example_history. size_nonneg op" by (simp add: example_history_def)
  note t = gettz_strong_cache_bounded[OF h refl, where is_tzlocal = "\<lambda>z. False"
      and nocache = "\<lambda>n. Some 4" and name = "Some ''A''" and k = "''A''" and z = 1 and n = 1]
  show ?thesis using t example_history_cache
    by (auto simp: lru_touch_spec_def)
qed

text \<open>
  With a negative size the bound does not hold: \<open>set_cache_size(-1)\<close> stores the size,
  finds the cache empty and raises \<open>KeyError\<close>; a call of \<open>gettz\<close> after it leaves no
  entry in the strong cache, which is more than the configured -1.
\<close>

theorem gettz_negative_size_counterexample:
  "set_cache_size (gettz_init :: nat gettz_state) (- 1)
     = (Inl KeyError, gettz_init\<lparr>strong_cache_size := - 1\<rparr>)
   \<and> strong_cache_size (gettz_run (\<lambda>z. False) negative_size_history) = - 1
   \<and> strong_cache (gettz_run (\<lambda>z. False) negative_size_history) = []
   \<and> strong_cache_size (gettz_run (\<lambda>z. False) negative_size_history)
       < int (length (strong_cache (gettz_run (\<lambda>z. False) negative_size_history)))"
  by (simp add: negative_size_history_def gettz_run_def gettz_init_def set_cache_size_def
      gettz_call_def strong_cache_touch_def od_pop_def od_setitem_def od_popitem_first_def)

subsection \<open>The component of an iCalendar zone before the first onset\<close>

lemma latest_comp_none:
  "\<forall>c \<in> set cs. find_compdt c w f = Inr None \<Longrightarrow> latest_comp cs w f l lc = Inr lc"
  by (induction cs) auto

text \<open>
  With more than one component, a reading that is not in the cache and at which no
  component has occurred gets the first component that is not DST, when there is one.
\<close>

lemma find_comp_before_first_onset:
  assumes "length (comps self) \<noteq> 1"
    and "cache_lookup self (dt_wall dt, dt_fold dt) = None"
    and "\<forall>c \<in> set (comps self). find_compdt c (dt_wall dt) (dt_fold dt) = Inr None"
    and "find (\<lambda>c. \<not> isdst c) (comps self) = Some s"
  shows "find_comp self dt = Inr (s, cache_insert self (dt_wall dt, dt_fold dt) s)"
proof -
  have l: "latest_comp (comps self) (dt_wall dt) (dt_fold dt) None None = Inr None"
    using latest_comp_none[OF assms(3)] .
  show ?thesis
  proof (cases "comps self")
    case Nil
    then show ?thesis using assms(4) by simp
  next
    case (Cons c cs)
    then obtain c2 cs2 where cs: "cs = c2 # cs2" using assms(1) by (cases cs) auto
    show ?thesis using l assms(2,4) Cons cs
      by (simp add: find_comp_def fallback_comp_def)
  qed
qed

text \<open>
  Without a component that is not DST the fallback raises, whatever the components are.
\<close>

lemma find_comp_no_standard_raises:
  assumes "length (comps self) \<noteq> 1"
    and "cache_lookup self (dt_wall dt, dt_fold dt) = None"
    and "\<forall>c \<in> set (comps self). find_compdt c (dt_wall dt) (dt_fold dt) = Inr None"
    and "find (\<lambda>c. \<not> isdst c) (comps self) = None"
  shows "find_comp self dt = Inl (if comps self = [] then UnboundLocalError else TypeError)"
proof -
  have l: "latest_comp (comps self) (dt_wall dt) (dt_fold dt) None None = Inr None"
    using latest_comp_none[OF assms(3)] .
  show ?thesis
  proof (cases "comps self")
    case Nil
    then show ?thesis using l assms(2) by (simp add: find_comp_def fallback_comp_def)
  next
    case (Cons c cs)
    then obtain c2 cs2 where cs: "cs = c2 # cs2" using assms(1) by (cases cs) auto
    show ?thesis using l assms(2,4) Cons cs
      by (simp add: find_comp_def fallback_comp_def)
  qed
qed

text \<open>
  C1. For a zone with more than one component and a reading before every component's
  first occurrence, the claim has the first \<open>STANDARD\<close> component used, and the first
  component when none is \<open>STANDARD\<close>. The code does the first: in \<open>mixed_zone\<close> the
  \<open>STANDARD\<close> component is found. It does not do the second: in \<open>all_daylight_zone\<close>
  \<open>_find_comp\<close> raises \<open>TypeError\<close> (\<open>comp[0]\<close> subscripts the last component instead of
  taking \<open>self._comps[0]\<close>), and so do \<open>utcoffset\<close>, \<open>dst\<close> and \<open>tzname\<close>.
\<close>

theorem find_comp_all_daylight_raises:
  "find_comp all_daylight_zone early = Inl TypeError
   \<and> vtz_utcoffset all_daylight_zone (Some early) = Inl TypeError
   \<and> vtz_dst all_daylight_zone early = Inl TypeError
   \<and> vtz_tzname all_daylight_zone early = Inl TypeError
   \<and> (\<exists>z. find_comp mixed_zone early = Inr (standard_c, z))"
  by (simp add: find_comp_def vtz_utcoffset_def vtz_dst_def vtz_tzname_def all_daylight_zone_def
      mixed_zone_def early_def tzicalvtz_init_def cache_lookup_def find_compdt_def
      daylight_a_def daylight_b_def standard_c_def tzicalvtzcomp_init_def fallback_comp_def
      timedelta_seconds_def ZERO_def)

subsection \<open>Missing mandatory fields of a component\<close>

lemmas parse_defs = parse_rfc_def parse_line_def parse_state_init_def rstrip_def
  upper_def upper_char_def end_component_def end_vtimezone_def component_property_def
  vtimezone_property_def parse_offset_def py_int_def strip_def lstrip_def is_space_def
  is_digit_def digits_value_def str_bool_def Let_def

text \<open>
  At the \<open>END\<close> of a component with \<open>DTSTART\<close> and \<open>TZOFFSETFROM\<close> but without
  \<open>TZOFFSETTO\<close>, the message names \<open>TZOFFSETFROM\<close>.
\<close>

lemma end_component_without_tzoffsetto:
  "ps_founddtstart st \<Longrightarrow> ps_tzoffsetfrom st = Some a \<Longrightarrow> ps_tzoffsetto st = None \<Longrightarrow>
     end_component rrulestr st = Inl (ValueError ''mandatory TZOFFSETFROM not found'')"
  by (simp add: end_component_def)

text \<open>
  C8. A component that lacks a mandatory field fails to parse with a \<open>ValueError\<close>.
  Without \<open>DTSTART\<close> the message names \<open>DTSTART\<close>, without \<open>TZOFFSETFROM\<close> it names
  \<open>TZOFFSETFROM\<close>, as the claim says. Without \<open>TZOFFSETTO\<close> the message is the one for
  \<open>TZOFFSETFROM\<close> again: it does not name \<open>TZOFFSETTO\<close>, which the claim requires.
\<close>

theorem parse_rfc_missing_field_messages:
  "parse_rfc rrulestr missing_tzoffsetto = Inl (ValueError ''mandatory TZOFFSETFROM not found'')
   \<and> parse_rfc rrulestr missing_tzoffsetfrom = Inl (ValueError ''mandatory TZOFFSETFROM not found'')
   \<and> parse_rfc rrulestr missing_dtstart = Inl (ValueError ''mandatory DTSTART not found'')"
  by (simp add: missing_tzoffsetto_def missing_tzoffsetfrom_def missing_dtstart_def parse_defs)

subsection \<open>\<open>resolve_imaginary\<close>\<close>

lemmas zone_eval = datetime_exists_def zone_argument_def astimezone_def zone_of_def UTC_def
  tzutc_zone_def dt_add_def hm_def timedelta_seconds_def ZERO_def hours24_def Let_def










text \<open>
  C6. The claim has \<open>resolve_imaginary\<close> idempotent, its result always existing. In
  \<open>double_gap_zone\<close> the reading 2:30 is moved by the two hours that the offset gains
  between the day before and the day after, to 4:30, which lies in the second gap and
  does not exist; applied again, \<open>resolve_imaginary\<close> moves it to 6:30, which exists.
\<close>

theorem resolve_imaginary_not_idempotent:
  "resolve_imaginary (\<lambda>r. double_gap_zone) in_first_gap
     = Inr (A_new_object (in_first_gap\<lparr>dt_wall := hm 4 30\<rparr>))
   \<and> datetime_exists (\<lambda>r. double_gap_zone) (in_first_gap\<lparr>dt_wall := hm 4 30\<rparr>) None = Inr False
   \<and> resolve_imaginary (\<lambda>r. double_gap_zone) (in_first_gap\<lparr>dt_wall := hm 4 30\<rparr>)
     = Inr (A_new_object (in_first_gap\<lparr>dt_wall := hm 6 30\<rparr>))
   \<and> hm 6 30 \<noteq> hm 4 30
   \<and> datetime_exists (\<lambda>r. double_gap_zone) (in_first_gap\<lparr>dt_wall := hm 6 30\<rparr>) None = Inr True"
  by (simp add: resolve_imaginary_def in_first_gap_def double_gap_zone_def zone_eval)

subsection \<open>Naive datetimes and the \<open>tz\<close> argument\<close>










subsection \<open>\<open>tzstr\<close>: the sign of GMT and UTC offsets\<close>

lemma tzstr_delta_returns:
  "attr_complete x \<Longrightarrow> \<exists>r. tzstr_delta self x isend = Inr r"
  by (auto simp: tzstr_delta_def attr_complete_def Let_def split: option.splits)

lemma tzrange_init_std_offset:
  "std_offset (tzrange_init a (Some off) c d s e) = timedelta_seconds off"
  by (simp add: tzrange_init_def Let_def)

lemma tzstr_init_std_offset:
  assumes "\<not> any_unused_tokens res" "attr_complete (r_start res)" "attr_complete (r_end res)"
    and "r_stdoffset res = Some off"
  shows "\<exists>z. tzstr_init (Some res) posix = Inr z
    \<and> std_offset z = timedelta_seconds
        (if (r_stdabbr res = Some ''GMT'' \<or> r_stdabbr res = Some ''UTC'') \<and> \<not> posix then - off else off)
    \<and> (\<not> str_bool (r_dstabbr res) \<longrightarrow> \<not> hasdst z)"
proof -
  let ?so = "(if (r_stdabbr res = Some ''GMT'' \<or> r_stdabbr res = Some ''UTC'') \<and> \<not> posix then - off else off)"
  let ?self = "tzrange_init (r_stdabbr res) (Some ?so) (r_dstabbr res) (r_dstoffset res) DeltaFalse DeltaFalse"
  obtain sd where sd: "tzstr_delta ?self (r_start res) False = Inr sd"
    using tzstr_delta_returns[OF assms(2)] by blast
  obtain ed where ed: "tzstr_delta ?self (r_end res) True = Inr ed"
    using tzstr_delta_returns[OF assms(3)] by blast
  have s: "std_offset ?self = timedelta_seconds ?so" by (rule tzrange_init_std_offset)
  show ?thesis
    using assms(1,4) sd ed s
    by (auto simp: tzstr_init_def Let_def)
qed

text \<open>
  C2. Take a parsed TZ string whose standard abbreviation is \<open>GMT\<close> or \<open>UTC\<close> with an
  offset \<open>off\<close> (the parser's value, which follows POSIX: \<open>GMT+3\<close> is 3 hours behind
  UTC), fully consumed. With the default \<open>posix_offset=False\<close>, \<open>tzstr\<close> is built and its
  standard UTC offset is \<open>-off\<close>, the sign flipped; with \<open>posix_offset=True\<close> it is \<open>off\<close>.
  Without a DST abbreviation the zone has no DST, so this is its UTC offset throughout.
\<close>

theorem tzstr_gmt_offset_sign:
  assumes "r_stdabbr res = Some ''GMT'' \<or> r_stdabbr res = Some ''UTC''"
    and "r_stdoffset res = Some off"
    and "\<not> any_unused_tokens res"
    and "attr_complete (r_start res)" and "attr_complete (r_end res)"
  shows "(\<exists>z. tzstr_init (Some res) False = Inr z \<and> std_offset z = timedelta_seconds (- off)
            \<and> (\<not> str_bool (r_dstabbr res) \<longrightarrow> \<not> hasdst z))
       \<and> (\<exists>z. tzstr_init (Some res) True = Inr z \<and> std_offset z = timedelta_seconds off
            \<and> (\<not> str_bool (r_dstabbr res) \<longrightarrow> \<not> hasdst z))"
  using tzstr_init_std_offset[OF assms(3,4,5,2), of False]
    tzstr_init_std_offset[OF assms(3,4,5,2), of True] assms(1)
  by auto

text \<open>
  \<open>GMT+3\<close> is 3 hours ahead of UTC by default and 3 hours behind with
  \<open>posix_offset=True\<close>.
\<close>

theorem tzstr_gmt_offset_sign_witness:
  "(\<exists>z. tzstr_init (Some parsetz_GMT_plus_3) False = Inr z
        \<and> std_offset z = timedelta_seconds (3 * 3600) \<and> \<not> hasdst z)
   \<and> (\<exists>z. tzstr_init (Some parsetz_GMT_plus_3) True = Inr z
        \<and> std_offset z = timedelta_seconds (- (3 * 3600)) \<and> \<not> hasdst z)"
proof -
  have a: "r_stdabbr parsetz_GMT_plus_3 = Some ''GMT'' \<or> r_stdabbr parsetz_GMT_plus_3 = Some ''UTC''"
    by (simp add: parsetz_GMT_plus_3_def)
  have b: "r_stdoffset parsetz_GMT_plus_3 = Some (- 10800)" by (simp add: parsetz_GMT_plus_3_def)
  have c: "\<not> any_unused_tokens parsetz_GMT_plus_3" by (simp add: parsetz_GMT_plus_3_def)
  have d: "attr_complete (r_start parsetz_GMT_plus_3)" "attr_complete (r_end parsetz_GMT_plus_3)"
    by (simp_all add: parsetz_GMT_plus_3_def attr_complete_def tzattr_unset_def)
  have e: "\<not> str_bool (r_dstabbr parsetz_GMT_plus_3)"
    by (simp add: parsetz_GMT_plus_3_def str_bool_def)
  show ?thesis using tzstr_gmt_offset_sign[OF a b c d] e by simp
qed

subsection \<open>\<open>tzstr("EST5EDT")\<close> and \<open>tzrange("EST", -18000, "EDT")\<close>\<close>

text \<open>
  C3. The zone that \<open>tzstr\<close> builds from \<open>EST5EDT\<close> with the default \<open>posix_offset\<close> is
  equal, by \<open>tzrange.__eq__\<close> in both operand orders, to
  \<open>tzrange("EST", -18000, "EDT")\<close> with its DST offset and rules defaulted.
\<close>

theorem tzstr_EST5EDT_equals_tzrange:
  "\<exists>z. tzstr_init (Some parsetz_EST5EDT) False = Inr z
      \<and> tzrange_eq z (tzrange_init (Some ''EST'') (Some (- 18000)) (Some ''EDT'') None DeltaNone DeltaNone)
      \<and> tzrange_eq (tzrange_init (Some ''EST'') (Some (- 18000)) (Some ''EDT'') None DeltaNone DeltaNone) z"
  by (simp add: tzstr_init_def parsetz_EST5EDT_def tzattr_unset_def tzrange_init_def tzrange_eq_def
      tzstr_delta_def relativedelta_new_def relativedelta_bool_def delta_bool_def str_bool_def
      SU_def timedelta_seconds_def ZERO_def Let_def)


subsection \<open>The default rules of \<open>tzrange\<close>\<close>

lemma ymd2ord_shift: "ymd2ord y m (d + k) = ymd2ord y m d + k"
  by (simp add: ymd2ord_def)

lemma default_start_date:
  fixes o1 :: int
  defines "j \<equiv> weekday_jump (Some (SU 1)) o1"
  shows "0 \<le> j \<and> j \<le> 6 \<and> weekday_of_ordinal (o1 + j) = 6"
  unfolding j_def weekday_jump_def SU_def weekday_of_ordinal_def
  by (simp add: Let_def) presburger

lemma default_end_date:
  fixes o1 :: int
  defines "j \<equiv> weekday_jump (Some (SU (- 1))) o1"
  shows "- 6 \<le> j \<and> j \<le> 0 \<and> weekday_of_ordinal (o1 + j) = 6"
  unfolding j_def weekday_jump_def SU_def weekday_of_ordinal_def
  by (simp add: Let_def) presburger

lemma day_of_total:
  fixes o1 s :: int
  assumes "0 \<le> s" "s < 86400"
  shows "((o1 - 1) * 86400 + s) div 86400 + 1 = o1"
proof -
  have "((o1 - 1) * 86400 + s) div 86400 = (o1 - 1) + s div 86400"
    by (simp add: div_mult_self4 algebra_simps)
  moreover have "s div 86400 = 0" using assms by simp
  ultimately show ?thesis by simp
qed

lemma radd_default_start:
  "relativedelta_radd (relativedelta_new 2 0 (Some 4) (Some 1) (Some (SU 1)) None None) year
     = at_midnight_plus (ymd2ord year 4 1 + weekday_jump (Some (SU 1)) (ymd2ord year 4 1)) 7200"
proof -
  have d: "((ymd2ord year 4 1 - 1) * 86400 + 7200) div 86400 + 1 = ymd2ord year 4 1"
    by (rule day_of_total) simp_all
  show ?thesis
    unfolding relativedelta_radd_def relativedelta_new_def rule_day_def
    using d by (simp add: days_in_month_def at_midnight_plus_def Let_def algebra_simps)
qed

lemma radd_default_end:
  "relativedelta_radd (relativedelta_new 1 0 (Some 10) (Some 31) (Some (SU (- 1))) None None) year
     = at_midnight_plus (ymd2ord year 10 31 + weekday_jump (Some (SU (- 1))) (ymd2ord year 10 31)) 3600"
proof -
  have d: "((ymd2ord year 10 31 - 1) * 86400 + 3600) div 86400 + 1 = ymd2ord year 10 31"
    by (rule day_of_total) simp_all
  show ?thesis
    unfolding relativedelta_radd_def relativedelta_new_def rule_day_def
    using d by (simp add: days_in_month_def at_midnight_plus_def Let_def algebra_simps)
qed


lemma default_rules:
  assumes "str_bool dstabbr"
  shows "start_delta (tzrange_init stdabbr stdoffset dstabbr dstoffset DeltaNone DeltaNone)
           = Delta (relativedelta_new 2 0 (Some 4) (Some 1) (Some (SU 1)) None None)"
    and "end_delta (tzrange_init stdabbr stdoffset dstabbr dstoffset DeltaNone DeltaNone)
           = Delta (relativedelta_new 1 0 (Some 10) (Some 31) (Some (SU (- 1))) None None)"
    and "hasdst (tzrange_init stdabbr stdoffset dstabbr dstoffset DeltaNone DeltaNone)"
  using assms
  by (simp_all add: tzrange_init_def Let_def delta_bool_def relativedelta_bool_def
      relativedelta_new_def)

lemma no_rules:
  assumes "\<not> str_bool dstabbr"
  shows "\<not> hasdst (tzrange_init stdabbr stdoffset dstabbr dstoffset DeltaNone DeltaNone)"
  using assms by (simp add: tzrange_init_def Let_def delta_bool_def)

lemma datetime_new_valid:
  assumes "MINYEAR \<le> y" "y \<le> MAXYEAR" "1 \<le> m" "m \<le> 12" "1 \<le> d" "d \<le> days_in_month y m"
    and "0 \<le> hh" "hh \<le> 23"
  shows "datetime_new y m d hh 0 0 = Inr (at_midnight_plus (ymd2ord y m d) (hh * 3600))"
  using assms by (simp add: datetime_new_def)

text \<open>
  C4. For a \<open>tzrange\<close> built with a DST abbreviation and no rules, and a year of the
  calendar (\<open>MINYEAR\<close> to \<open>MAXYEAR\<close>), \<open>transitions(year)\<close> is a pair: 2:00 on a Sunday
  among the first seven days of April, the first Sunday of April, and 1:00 on a Sunday
  among the last seven days of October, the last Sunday of October. For a \<open>tzrange\<close>
  built without a DST abbreviation and without rules, \<open>transitions(year)\<close> is \<open>None\<close> for
  every year.
\<close>

theorem tzrange_default_transitions:
  "(MINYEAR \<le> year \<and> year \<le> MAXYEAR \<and> str_bool dstabbr \<longrightarrow>
      (\<exists>d1 d2 s e.
          transitions (tzrange_init stdabbr stdoffset dstabbr dstoffset DeltaNone DeltaNone) year
            = Inr (Some (s, e))
        \<and> 1 \<le> d1 \<and> d1 \<le> 7 \<and> weekday_of year 4 d1 = 6 \<and> datetime_new year 4 d1 2 0 0 = Inr s
        \<and> 25 \<le> d2 \<and> d2 \<le> 31 \<and> weekday_of year 10 d2 = 6 \<and> datetime_new year 10 d2 1 0 0 = Inr e))
   \<and> (\<not> str_bool dstabbr \<longrightarrow>
        transitions (tzrange_init stdabbr stdoffset dstabbr dstoffset DeltaNone DeltaNone) year
          = Inr None)"
proof (intro conjI impI)
  assume a: "MINYEAR \<le> year \<and> year \<le> MAXYEAR \<and> str_bool dstabbr"
  let ?z = "tzrange_init stdabbr stdoffset dstabbr dstoffset DeltaNone DeltaNone"
  define j1 where "j1 = weekday_jump (Some (SU 1)) (ymd2ord year 4 1)"
  define j2 where "j2 = weekday_jump (Some (SU (- 1))) (ymd2ord year 10 31)"
  have p1: "0 \<le> j1 \<and> j1 \<le> 6 \<and> weekday_of_ordinal (ymd2ord year 4 1 + j1) = 6"
    unfolding j1_def by (rule default_start_date)
  have p2: "- 6 \<le> j2 \<and> j2 \<le> 0 \<and> weekday_of_ordinal (ymd2ord year 10 31 + j2) = 6"
    unfolding j2_def by (rule default_end_date)
  have b: "datetime_new year 1 1 0 0 0 = Inr (at_midnight_plus (ymd2ord year 1 1) 0)"
    using a by (simp add: datetime_new_def days_in_month_def)
  have t: "transitions ?z year
      = Inr (Some (at_midnight_plus (ymd2ord year 4 1 + j1) 7200,
                   at_midnight_plus (ymd2ord year 10 31 + j2) 3600))"
    using a b default_rules[of dstabbr stdabbr stdoffset dstoffset]
    by (simp add: transitions_def radd_default_start radd_default_end j1_def j2_def)
  have s: "datetime_new year 4 (1 + j1) 2 0 0 = Inr (at_midnight_plus (ymd2ord year 4 1 + j1) 7200)"
    using datetime_new_valid[of year 4 "1 + j1" 2] a p1
    by (simp add: days_in_month_def ymd2ord_shift)
  have e: "datetime_new year 10 (31 + j2) 1 0 0 = Inr (at_midnight_plus (ymd2ord year 10 31 + j2) 3600)"
    using datetime_new_valid[of year 10 "31 + j2" 1] a p2
    by (simp add: days_in_month_def ymd2ord_shift)
  have w1: "weekday_of year 4 (1 + j1) = 6"
    using p1 by (simp add: weekday_of_def ymd2ord_shift)
  have w2: "weekday_of year 10 (31 + j2) = 6"
    using p2 by (simp add: weekday_of_def ymd2ord_shift)
  have r1: "1 \<le> 1 + j1 \<and> 1 + j1 \<le> 7" using p1 by simp
  have r2: "25 \<le> 31 + j2 \<and> 31 + j2 \<le> 31" using p2 by simp
  show "\<exists>d1 d2 s e.
          transitions ?z year = Inr (Some (s, e))
        \<and> 1 \<le> d1 \<and> d1 \<le> 7 \<and> weekday_of year 4 d1 = 6 \<and> datetime_new year 4 d1 2 0 0 = Inr s
        \<and> 25 \<le> d2 \<and> d2 \<le> 31 \<and> weekday_of year 10 d2 = 6 \<and> datetime_new year 10 d2 1 0 0 = Inr e"
    using t s e w1 w2 r1 r2 by blast
next
  assume "\<not> str_bool dstabbr"
  then show "transitions (tzrange_init stdabbr stdoffset dstabbr dstoffset DeltaNone DeltaNone) year
          = Inr None"
    using no_rules[of dstabbr stdabbr stdoffset dstoffset] by (simp add: transitions_def)
qed

lemma april_2023: "ymd2ord 2023 4 1 = 738611"
  by (simp add: ymd2ord_def days_before_year_def days_before_month_def days_in_month_def
      is_leap_def upto.simps)

lemma october_2023: "ymd2ord 2023 10 1 = 738794"
  by (simp add: ymd2ord_def days_before_year_def days_before_month_def days_in_month_def
      is_leap_def upto.simps)


text \<open>
  In 2023 the transitions of \<open>tzrange("EST", -18000, "EDT")\<close> are April 2 at 2:00 and
  October 29 at 1:00; \<open>tzrange("UTC", 0)\<close> has none.
\<close>

theorem tzrange_default_transitions_witness:
  "\<exists>s e. transitions (tzrange_init (Some ''EST'') (Some (- 18000)) (Some ''EDT'') None
                         DeltaNone DeltaNone) 2023 = Inr (Some (s, e))
      \<and> datetime_new 2023 4 2 2 0 0 = Inr s
      \<and> datetime_new 2023 10 29 1 0 0 = Inr e
      \<and> transitions (tzrange_init (Some ''UTC'') (Some 0) None None DeltaNone DeltaNone) 2023
          = Inr None"
proof -
  have h: "MINYEAR \<le> 2023 \<and> 2023 \<le> MAXYEAR \<and> str_bool (Some ''EDT'')"
    by (simp add: MINYEAR_def MAXYEAR_def str_bool_def)
  obtain d1 d2 s e where
    t: "transitions (tzrange_init (Some ''EST'') (Some (- 18000)) (Some ''EDT'') None
                       DeltaNone DeltaNone) 2023 = Inr (Some (s, e))"
    and d1: "1 \<le> d1" "d1 \<le> 7" "weekday_of 2023 4 d1 = 6" "datetime_new 2023 4 d1 2 0 0 = Inr s"
    and d2: "25 \<le> d2" "d2 \<le> 31" "weekday_of 2023 10 d2 = 6" "datetime_new 2023 10 d2 1 0 0 = Inr e"
    using tzrange_default_transitions[of 2023 "Some ''EDT''" "Some ''EST''" "Some (- 18000)" None] h
    by blast
  have "ymd2ord 2023 4 d1 = 738610 + d1"
    using ymd2ord_shift[of 2023 4 1 "d1 - 1"] april_2023 by simp
  then have "d1 = 2" using d1(1-3) by (simp add: weekday_of_def weekday_of_ordinal_def) presburger
  have "ymd2ord 2023 10 d2 = 738793 + d2"
    using ymd2ord_shift[of 2023 10 1 "d2 - 1"] october_2023 by simp
  then have "d2 = 29" using d2(1-3) by (simp add: weekday_of_def weekday_of_ordinal_def) presburger
  have n: "transitions (tzrange_init (Some ''UTC'') (Some 0) None None DeltaNone DeltaNone) 2023
          = Inr None"
    using tzrange_default_transitions[of 2023 None "Some ''UTC''" "Some 0" None]
    by (simp add: str_bool_def)
  show ?thesis using t d1(4) d2(4) \<open>d1 = 2\<close> \<open>d2 = 29\<close> n by auto
qed


end
